theory Spec2Isabelle
  imports Main "HOL-Library.Word"
begin

section \<open>Errors\<close>

text \<open>
  Go errors are values. The program builds its own errors with \<^verbatim>\<open>fmt.Errorf\<close>: without
  \<^verbatim>\<open>%w\<close> the result is a fresh error carrying only a message (\<open>Errorf\<close>), with
  \<^verbatim>\<open>"<context>: %w"\<close> it wraps the cause (\<open>Wrapf\<close> keeps the context text before the
  colon and the wrapped error). The two error types of the verification library that the
  program looks for with \<^verbatim>\<open>errors.As\<close> are constructors of their own; every other error
  of a collaborator is \<open>External\<close> with its message.
\<close>

datatype error =
    ErrNoSignaturesFound
  | ErrNoMatchingAttestations
  | External string
  | Errorf string
  | Wrapf string error

text \<open>\<^verbatim>\<open>errors.As\<close> walks the chain of wrapped errors.\<close>

fun validateNoSignatureFound :: "error \<Rightarrow> bool" where
  "validateNoSignatureFound ErrNoSignaturesFound = True"
| "validateNoSignatureFound (Wrapf _ err) = validateNoSignatureFound err"
| "validateNoSignatureFound _ = False"

fun validateNoMatchingAttestations :: "error \<Rightarrow> bool" where
  "validateNoMatchingAttestations ErrNoMatchingAttestations = True"
| "validateNoMatchingAttestations (Wrapf _ err) = validateNoMatchingAttestations err"
| "validateNoMatchingAttestations _ = False"

section \<open>Data of the collaborators\<close>

type_synonym bytes = string

datatype reference = Reference string

datatype trusted_material = TrustedMaterial string

record Identity =
  Issuer :: string
  SubjectRegExp :: string

text \<open>
  Only the fields the program sets are modelled; a field the program leaves out of a struct
  literal has Go's zero value (\<open>False\<close> for \<open>co_NewBundleFormat\<close> in the legacy query).
  Field names carry a prefix where two structs share a name.
\<close>

record CheckOpts =
  co_Identities :: "Identity list"
  co_TrustedMaterial :: trusted_material
  co_NewBundleFormat :: bool

record oci_signature =
  Payload :: "error + bytes"

record Critical =
  Critical_Type :: string

record SimpleContainerImage =
  Critical :: Critical

record Envelope =
  Envelope_PayloadType :: string
  Envelope_Payload :: string

record Statement =
  PredicateType :: string

datatype token_getter =
    DefaultIDTokenGetter
  | PublicInstanceGoogleIDTokenGetter
  | PublicInstanceGithubIDTokenGetter
  | PublicInstanceMicrosoftIDTokenGetter
  | NewDeviceFlowTokenGetterForIssuer string

record OIDCIDToken =
  RawString :: string
  Subject :: string

record KeyOpts =
  ko_FulcioURL :: string
  ko_RekorURL :: string
  ko_OIDCIssuer :: string
  ko_OIDCClientID :: string
  ko_SkipConfirmation :: bool
  ko_TrustedMaterial :: trusted_material
  ko_IDToken :: string
  ko_FulcioAuthFlow :: string
  ko_NewBundleFormat :: bool

record RekorOptions =
  Rekor_URL :: string

record FulcioOptions =
  Fulcio_URL :: string

record OIDCOptions =
  OIDC_Issuer :: string
  OIDC_ClientID :: string

record SignOptions =
  so_Upload :: bool
  so_TlogUpload :: bool
  so_Rekor :: RekorOptions
  so_Fulcio :: FulcioOptions
  so_OIDC :: OIDCOptions
  so_NewBundleFormat :: bool
  so_UseSigningConfig :: bool

record RootOptions =
  Timeout :: "64 word"

text \<open>
  The type tags, as the comment above \<^verbatim>\<open>VerifySignature\<close> gives them:
  \<^verbatim>\<open>legacy type => `cosign container image signature`\<close>,
  \<^verbatim>\<open>bundled type => `https://sigstore.dev/cosign/sign/v1`\<close>.
\<close>

definition CosignSignatureType :: string where
  "CosignSignatureType = ''cosign container image signature''"

definition CosignSignPredicateType :: string where
  "CosignSignPredicateType = ''https://sigstore.dev/cosign/sign/v1''"

section \<open>The collaborators and the observable trace\<close>

text \<open>
  The trust-verification backend, the signing backend, the token issuer and the decoders of
  the payload formats are outside the repository. They are parameters of the model: a
  record of functions over a world \<open>'w\<close> that each call may read and change, so a
  collaborator may answer differently each time it is asked. The string constants of the
  signing library and the client id (declared elsewhere in package \<^verbatim>\<open>signer\<close>) are
  parameters too. The \<^verbatim>\<open>context.Context\<close> handed to the verification calls is part of
  the world.
\<close>

record 'w collaborators =
  ParseReference :: "string \<Rightarrow> error + reference"
  TrustedRoot :: "'w \<Rightarrow> (error + trusted_material) \<times> 'w"
  VerifyImageSignatures ::
    "reference \<Rightarrow> CheckOpts \<Rightarrow> 'w \<Rightarrow> (oci_signature list \<times> bool \<times> error option) \<times> 'w"
  VerifyImageAttestations ::
    "reference \<Rightarrow> CheckOpts \<Rightarrow> 'w \<Rightarrow> (oci_signature list \<times> bool \<times> error option) \<times> 'w"
  OIDConnect ::
    "string \<Rightarrow> string \<Rightarrow> string \<Rightarrow> string \<Rightarrow> token_getter \<Rightarrow> 'w \<Rightarrow> (error + OIDCIDToken) \<times> 'w"
  SignCmd ::
    "RootOptions \<Rightarrow> KeyOpts \<Rightarrow> SignOptions \<Rightarrow> string list \<Rightarrow> 'w \<Rightarrow> error option \<times> 'w"
  Unmarshal_SimpleContainerImage :: "bytes \<Rightarrow> error + SimpleContainerImage"
  Unmarshal_Envelope :: "bytes \<Rightarrow> error + Envelope"
  DecodeB64Payload :: "Envelope \<Rightarrow> error + bytes"
  Unmarshal_Statement :: "bytes \<Rightarrow> error + Statement"
  DefaultOIDCIssuerURL :: string
  DefaultFulcioURL :: string
  DefaultRekorURL :: string
  SigstoreOIDCClientID :: string

text \<open>
  Every call of a stateful collaborator and every line printed is recorded, with the
  arguments and the answer, in the order it happens.
\<close>

datatype event =
    Printed string
  | TrustedRootCall "error + trusted_material"
  | VerifyImageSignaturesCall reference CheckOpts "oci_signature list \<times> bool \<times> error option"
  | VerifyImageAttestationsCall reference CheckOpts "oci_signature list \<times> bool \<times> error option"
  | OIDConnectCall string string string string token_getter "error + OIDCIDToken"
  | SignCmdCall RootOptions KeyOpts SignOptions "string list" "error option"

text \<open>
  A value made by \<^verbatim>\<open>sync.OnceValues(f)\<close> owns a cell that is empty until the first call
  and holds the pair returned by \<open>f\<close> from then on. The closure \<open>f\<close> of
  \<^verbatim>\<open>getToken\<close> captures \<open>provider\<close> and \<open>deviceFlow\<close>, which the cell keeps.
  The cells live in a store indexed by their allocation number.
\<close>

record once =
  once_provider :: string
  once_deviceFlow :: bool
  once_done :: "(error + string) option"

record 'w state =
  world :: 'w
  trace :: "event list"
  onces :: "once list"

definition emit :: "event \<Rightarrow> 'w state \<Rightarrow> 'w state" where
  "emit e s = s\<lparr>trace := trace s @ [e]\<rparr>"

definition newline :: string where
  "newline = [CHR 0x0A]"

definition Printf :: "string \<Rightarrow> 'w state \<Rightarrow> 'w state" where
  "Printf text s = emit (Printed text) s"

definition Println :: "string \<Rightarrow> 'w state \<Rightarrow> 'w state" where
  "Println text s = emit (Printed (text @ newline)) s"

definition call_TrustedRoot ::
  "'w collaborators \<Rightarrow> 'w state \<Rightarrow> (error + trusted_material) \<times> 'w state" where
  "call_TrustedRoot env s =
     (let (r, w) = TrustedRoot env (world s)
      in (r, emit (TrustedRootCall r) (s\<lparr>world := w\<rparr>)))"

definition call_VerifyImageSignatures ::
  "'w collaborators \<Rightarrow> reference \<Rightarrow> CheckOpts \<Rightarrow> 'w state
     \<Rightarrow> (oci_signature list \<times> bool \<times> error option) \<times> 'w state" where
  "call_VerifyImageSignatures env ref opts s =
     (let (r, w) = VerifyImageSignatures env ref opts (world s)
      in (r, emit (VerifyImageSignaturesCall ref opts r) (s\<lparr>world := w\<rparr>)))"

definition call_VerifyImageAttestations ::
  "'w collaborators \<Rightarrow> reference \<Rightarrow> CheckOpts \<Rightarrow> 'w state
     \<Rightarrow> (oci_signature list \<times> bool \<times> error option) \<times> 'w state" where
  "call_VerifyImageAttestations env ref opts s =
     (let (r, w) = VerifyImageAttestations env ref opts (world s)
      in (r, emit (VerifyImageAttestationsCall ref opts r) (s\<lparr>world := w\<rparr>)))"

definition call_OIDConnect ::
  "'w collaborators \<Rightarrow> string \<Rightarrow> string \<Rightarrow> string \<Rightarrow> string \<Rightarrow> token_getter \<Rightarrow> 'w state
     \<Rightarrow> (error + OIDCIDToken) \<times> 'w state" where
  "call_OIDConnect env issuer clientID secret redirectURL tokenGetter s =
     (let (r, w) = OIDConnect env issuer clientID secret redirectURL tokenGetter (world s)
      in (r, emit (OIDConnectCall issuer clientID secret redirectURL tokenGetter r)
                  (s\<lparr>world := w\<rparr>)))"

definition call_SignCmd ::
  "'w collaborators \<Rightarrow> RootOptions \<Rightarrow> KeyOpts \<Rightarrow> SignOptions \<Rightarrow> string list \<Rightarrow> 'w state
     \<Rightarrow> error option \<times> 'w state" where
  "call_SignCmd env ro ko so imgs s =
     (let (r, w) = SignCmd env ro ko so imgs (world s)
      in (r, emit (SignCmdCall ro ko so imgs r) (s\<lparr>world := w\<rparr>)))"

section \<open>pkg/signer/auth.go\<close>

text \<open>
  The \<^verbatim>\<open>switch provider\<close> of the closure: \<open>None\<close> is its \<^verbatim>\<open>default\<close> branch, which
  returns the error.
\<close>

definition switch_provider :: "string \<Rightarrow> token_getter option" where
  "switch_provider provider =
     (if provider = '''' then Some DefaultIDTokenGetter
      else if provider = ''google'' then Some PublicInstanceGoogleIDTokenGetter
      else if provider = ''github'' then Some PublicInstanceGithubIDTokenGetter
      else if provider = ''microsoft'' then Some PublicInstanceMicrosoftIDTokenGetter
      else None)"

text \<open>The body of the closure handed to \<^verbatim>\<open>sync.OnceValues\<close>.\<close>

definition getToken_body ::
  "'w collaborators \<Rightarrow> string \<Rightarrow> bool \<Rightarrow> 'w state \<Rightarrow> (error + string) \<times> 'w state" where
  "getToken_body env provider deviceFlow s =
     (case switch_provider provider of
        None \<Rightarrow> (Inl (Errorf (''unsupported provider: '' @ provider)), s)
      | Some g \<Rightarrow>
          (let tokenGetter =
                 (if deviceFlow then NewDeviceFlowTokenGetterForIssuer (DefaultOIDCIssuerURL env)
                  else g);
               (r, s1) = call_OIDConnect env (DefaultOIDCIssuerURL env) (SigstoreOIDCClientID env)
                           [] [] tokenGetter s
           in (case r of
                 Inl err \<Rightarrow> (Inl err, s1)
               | Inr tok \<Rightarrow> (Inr (RawString tok), s1))))"

text \<open>
  \<^verbatim>\<open>getToken(provider, deviceFlow)\<close> evaluates \<^verbatim>\<open>sync.OnceValues(...)\<close>: it allocates
  a new, empty cell and returns the function value bound to it (here the cell's number).
\<close>

definition getToken :: "string \<Rightarrow> bool \<Rightarrow> 'w state \<Rightarrow> nat \<times> 'w state" where
  "getToken provider deviceFlow s =
     (length (onces s),
      s\<lparr>onces := onces s @
          [\<lparr>once_provider = provider, once_deviceFlow = deviceFlow, once_done = None\<rparr>]\<rparr>)"

text \<open>
  Calling the function value \<open>h\<close>: the first call runs the body and fills the cell, every
  later call returns what the cell holds. A number that no \<open>getToken\<close> returned is not a
  function value of the program; calling it is modelled as the call of a nil function.
\<close>

definition call_once ::
  "'w collaborators \<Rightarrow> nat \<Rightarrow> 'w state \<Rightarrow> (error + string) \<times> 'w state" where
  "call_once env h s =
     (if h < length (onces s) then
        (let c = onces s ! h
         in (case once_done c of
               Some r \<Rightarrow> (r, s)
             | None \<Rightarrow>
                 (let (r, s1) = getToken_body env (once_provider c) (once_deviceFlow c) s
                  in (r, s1\<lparr>onces := (onces s1)[h := c\<lparr>once_done := Some r\<rparr>]\<rparr>))))
      else (Inl (Errorf ''panic: call of nil func''), s))"

section \<open>Package signer: verification of the two signature formats\<close>

text \<open>
  The loop over the signatures returned by the legacy query. The Go function returns a
  pair \<^verbatim>\<open>(bool, error)\<close>; the boolean is \<^verbatim>\<open>false\<close> beside every error and the caller
  reads it only when the error is nil, so the result is \<open>Inl err\<close> or \<open>Inr b\<close>.
\<close>

fun legacy_loop :: "'w collaborators \<Rightarrow> oci_signature list \<Rightarrow> error + bool" where
  "legacy_loop env [] = Inr True"
| "legacy_loop env (sig # signatures) =
     (case Payload sig of
        Inl err \<Rightarrow> Inl (Wrapf ''error getting signature payload'' err)
      | Inr signaturePayload \<Rightarrow>
          (case Unmarshal_SimpleContainerImage env signaturePayload of
             Inl err \<Rightarrow> Inl (Wrapf ''error unmarshaling signature payload'' err)
           | Inr info \<Rightarrow>
               if Critical_Type (Critical info) \<noteq> CosignSignatureType
               then Inl (Errorf (''legacy signature found but with unexpected type: ''
                                   @ Critical_Type (Critical info)))
               else legacy_loop env signatures))"

definition verifyLegacySignature ::
  "'w collaborators \<Rightarrow> reference \<Rightarrow> trusted_material \<Rightarrow> Identity list \<Rightarrow> 'w state
     \<Rightarrow> (error + bool) \<times> 'w state" where
  "verifyLegacySignature env ref trustedRoot identities s =
     (let ((signatures, bundleVerified, verifyErr), s1) =
            call_VerifyImageSignatures env ref
              \<lparr>co_Identities = identities, co_TrustedMaterial = trustedRoot,
               co_NewBundleFormat = False\<rparr> s
      in (case verifyErr of
            None \<Rightarrow>
              if \<not> bundleVerified
              then (Inl (Errorf ''legacy signatures found but verification failed''), s1)
              else (legacy_loop env signatures, s1)
          | Some err \<Rightarrow>
              if validateNoSignatureFound err then (Inr False, s1) else (Inl err, s1)))"

fun bundled_loop :: "'w collaborators \<Rightarrow> oci_signature list \<Rightarrow> error + bool" where
  "bundled_loop env [] = Inr True"
| "bundled_loop env (sig # signatures) =
     (case Payload sig of
        Inl err \<Rightarrow> Inl (Wrapf ''error getting signature payload'' err)
      | Inr signaturePayload \<Rightarrow>
          (case Unmarshal_Envelope env signaturePayload of
             Inl err \<Rightarrow> Inl (Wrapf ''error unmarshaling signature payload'' err)
           | Inr info \<Rightarrow>
               (case DecodeB64Payload env info of
                  Inl err \<Rightarrow> Inl (Wrapf ''error decoding signature payload'' err)
                | Inr payloadDecoded \<Rightarrow>
                    (case Unmarshal_Statement env payloadDecoded of
                       Inl err \<Rightarrow> Inl (Wrapf ''error unmarshaling signature statement'' err)
                     | Inr statement \<Rightarrow>
                         if PredicateType statement \<noteq> CosignSignPredicateType
                         then Inl (Errorf (''bundled signature found but with unexpected type: ''
                                             @ PredicateType statement))
                         else bundled_loop env signatures))))"

definition verifyBundledSignature ::
  "'w collaborators \<Rightarrow> reference \<Rightarrow> trusted_material \<Rightarrow> Identity list \<Rightarrow> 'w state
     \<Rightarrow> (error + bool) \<times> 'w state" where
  "verifyBundledSignature env ref trustedRoot identities s =
     (let ((signatures, bundleVerified, verifyErr), s1) =
            call_VerifyImageAttestations env ref
              \<lparr>co_Identities = identities, co_TrustedMaterial = trustedRoot,
               co_NewBundleFormat = True\<rparr> s
      in (case verifyErr of
            None \<Rightarrow>
              if \<not> bundleVerified
              then (Inl (Errorf ''bundled signatures found but verification failed''), s1)
              else (bundled_loop env signatures, s1)
          | Some err \<Rightarrow>
              if validateNoMatchingAttestations err then (Inr False, s1) else (Inl err, s1)))"

record signatureStatus =
  LegacySignature :: bool
  BundleSignature :: bool

definition VerifySignature ::
  "'w collaborators \<Rightarrow> string \<Rightarrow> Identity list \<Rightarrow> 'w state
     \<Rightarrow> (error + signatureStatus) \<times> 'w state" where
  "VerifySignature env img identities s =
     (case ParseReference env img of
        Inl err \<Rightarrow> (Inl (Wrapf (''error parsing image reference for '' @ img) err), s)
      | Inr ref \<Rightarrow>
          (let (rt, s1) = call_TrustedRoot env s
           in (case rt of
                 Inl err \<Rightarrow> (Inl (Wrapf ''error getting trusted roots'' err), s1)
               | Inr trustedRoot \<Rightarrow>
                   (let (rl, s2) = verifyLegacySignature env ref trustedRoot identities s1
                    in (case rl of
                          Inl err \<Rightarrow> (Inl (Wrapf ''error verifying legacy signature'' err), s2)
                        | Inr legacyStatus \<Rightarrow>
                            (let (rb, s3) =
                                   verifyBundledSignature env ref trustedRoot identities s2
                             in (case rb of
                                   Inl err \<Rightarrow>
                                     (Inl (Wrapf ''error verifying bundled signature'' err), s3)
                                 | Inr bundledStatus \<Rightarrow>
                                     (Inr \<lparr>LegacySignature = legacyStatus,
                                           BundleSignature = bundledStatus\<rparr>, s3))))))))"

section \<open>Package signer: signing\<close>

text \<open>
  Isabelle reserves the name \<open>image\<close>; the parameter \<^verbatim>\<open>image\<close> is \<open>img\<close>.
  The three struct literals of \<^verbatim>\<open>SignImage\<close>.\<close>

definition keyOptions :: "'w collaborators \<Rightarrow> trusted_material \<Rightarrow> string \<Rightarrow> KeyOpts" where
  "keyOptions env trustedRoot token =
     \<lparr>ko_FulcioURL = DefaultFulcioURL env,
      ko_RekorURL = DefaultRekorURL env,
      ko_OIDCIssuer = DefaultOIDCIssuerURL env,
      ko_OIDCClientID = SigstoreOIDCClientID env,
      ko_SkipConfirmation = True,
      ko_TrustedMaterial = trustedRoot,
      ko_IDToken = token,
      ko_FulcioAuthFlow = ''token'',
      ko_NewBundleFormat = False\<rparr>"

definition signingOptions :: "'w collaborators \<Rightarrow> SignOptions" where
  "signingOptions env =
     \<lparr>so_Upload = True,
      so_TlogUpload = True,
      so_Rekor = \<lparr>Rekor_URL = DefaultRekorURL env\<rparr>,
      so_Fulcio = \<lparr>Fulcio_URL = DefaultFulcioURL env\<rparr>,
      so_OIDC = \<lparr>OIDC_Issuer = DefaultOIDCIssuerURL env,
                 OIDC_ClientID = SigstoreOIDCClientID env\<rparr>,
      so_NewBundleFormat = False,
      so_UseSigningConfig = False\<rparr>"

definition rootOptions :: "64 word \<Rightarrow> RootOptions" where
  "rootOptions timeout = \<lparr>Timeout = timeout\<rparr>"

definition SignImage ::
  "'w collaborators \<Rightarrow> string \<Rightarrow> bool \<Rightarrow> bool \<Rightarrow> string \<Rightarrow> bool \<Rightarrow> 64 word \<Rightarrow> 'w state
     \<Rightarrow> error option \<times> 'w state" where
  "SignImage env img legacySigned bundleSigned provider deviceFlow timeout s =
     (let (rt, s1) = call_TrustedRoot env s
      in (case rt of
            Inl err \<Rightarrow> (Some (Wrapf ''error getting trusted roots'' err), s1)
          | Inr trustedRoot \<Rightarrow>
              (let (h, s2) = getToken provider deviceFlow s1;
                   (tk, s3) = call_once env h s2
               in (case tk of
                     Inl err \<Rightarrow> (Some (Wrapf ''error getting OIDC token'' err), s3)
                   | Inr token \<Rightarrow>
                       (let ko = keyOptions env trustedRoot token;
                            so = signingOptions env;
                            ro = rootOptions timeout;
                            (e1, s4) =
                              (if \<not> legacySigned
                               then call_SignCmd env ro ko so [img]
                                      (Printf (''Signing legacy signature for image: ''
                                                 @ img @ newline) s3)
                               else (None, s3))
                        in (case e1 of
                              Some err \<Rightarrow>
                                (Some (Wrapf (''error signing legacy signature for image ''
                                               @ img) err), s4)
                            | None \<Rightarrow>
                                if \<not> bundleSigned
                                then
                                  (let ko' = ko\<lparr>ko_NewBundleFormat := True\<rparr>;
                                       so' = so\<lparr>so_NewBundleFormat := True,
                                                so_UseSigningConfig := True\<rparr>;
                                       (e2, s5) =
                                         call_SignCmd env ro ko' so' [img]
                                           (Printf (''Signing bundled signature for image: ''
                                                      @ img @ newline) s4)
                                   in (case e2 of
                                         Some err \<Rightarrow>
                                           (Some (Wrapf
                                              (''error signing bundled signature for image ''
                                                 @ img) err), s5)
                                       | None \<Rightarrow> (None, s5)))
                                else (None, s4)))))))"

section \<open>Package cmd: the batch\<close>

text \<open>The package-level variable \<^verbatim>\<open>signOptions\<close>, filled from the command line flags.\<close>

record signOptions =
  CertificateIdentityRegexp :: string
  CertificateOIDCIssuer :: string
  OIDCProvider :: string
  opt_Timeout :: "64 word"
  DeviceFlow :: bool

fun signImages ::
  "'w collaborators \<Rightarrow> signOptions \<Rightarrow> string list \<Rightarrow> 'w state \<Rightarrow> error option \<times> 'w state" where
  "signImages env opts [] s = (None, s)"
| "signImages env opts (img # images) s =
     (let s0 = Printf (''Processing image: '' @ img @ newline) s;
          (r, s1) = VerifySignature env img
                      [\<lparr>Issuer = CertificateOIDCIssuer opts,
                        SubjectRegExp = CertificateIdentityRegexp opts\<rparr>] s0
      in (case r of
            Inl err \<Rightarrow> (Some err, s1)
          | Inr signatureInfo \<Rightarrow>
              if LegacySignature signatureInfo \<and> BundleSignature signatureInfo
              then signImages env opts images
                     (Println
                        ''Image is already signed with both legacy and bundled signatures, skipping signing.''
                        s1)
              else
                (let (e, s2) = SignImage env img (LegacySignature signatureInfo)
                                 (BundleSignature signatureInfo) (OIDCProvider opts)
                                 (DeviceFlow opts) (opt_Timeout opts) s1
                 in (case e of
                       Some err \<Rightarrow> (Some (Wrapf (''failed to sign image '' @ img) err), s2)
                     | None \<Rightarrow>
                         signImages env opts images
                           (Printf (''Successfully signed image: '' @ img @ newline) s2)))))"

section \<open>Reading the trace\<close>

fun is_SignCmdCall :: "event \<Rightarrow> bool" where
  "is_SignCmdCall (SignCmdCall ro ko so imgs r) = True"
| "is_SignCmdCall _ = False"

fun is_OIDConnectCall :: "event \<Rightarrow> bool" where
  "is_OIDConnectCall (OIDConnectCall issuer clientID secret redirectURL tokenGetter r) = True"
| "is_OIDConnectCall _ = False"

text \<open>The events a run added: what the trace holds after it, less what it held before.\<close>

definition new_events :: "'w state \<Rightarrow> 'w state \<Rightarrow> event list" where
  "new_events s s' = drop (length (trace s)) (trace s')"

text \<open>
  What a signature has to pass in each loop: its payload is there, every decoding step
  succeeds and the type tag is the expected one.
\<close>

definition legacy_wellformed :: "'w collaborators \<Rightarrow> oci_signature \<Rightarrow> bool" where
  "legacy_wellformed env sig =
     (case Payload sig of
        Inl err \<Rightarrow> False
      | Inr p \<Rightarrow>
          (case Unmarshal_SimpleContainerImage env p of
             Inl err \<Rightarrow> False
           | Inr info \<Rightarrow> Critical_Type (Critical info) = CosignSignatureType))"

definition bundled_wellformed :: "'w collaborators \<Rightarrow> oci_signature \<Rightarrow> bool" where
  "bundled_wellformed env sig =
     (case Payload sig of
        Inl err \<Rightarrow> False
      | Inr p \<Rightarrow>
          (case Unmarshal_Envelope env p of
             Inl err \<Rightarrow> False
           | Inr info \<Rightarrow>
               (case DecodeB64Payload env info of
                  Inl err \<Rightarrow> False
                | Inr d \<Rightarrow>
                    (case Unmarshal_Statement env d of
                       Inl err \<Rightarrow> False
                     | Inr statement \<Rightarrow> PredicateType statement = CosignSignPredicateType))))"

text \<open>
  The program has no error types of its own. The specification's
  \<^verbatim>\<open>MalformedSignatureError\<close> is the family of errors the two loops over the returned
  signatures build: a payload that cannot be read or decoded, and a type tag that is not
  the expected one.
\<close>

definition hasPrefix :: "string \<Rightarrow> string \<Rightarrow> bool" where
  "hasPrefix s p = (take (length p) s = p)"

fun MalformedSignatureError :: "error \<Rightarrow> bool" where
  "MalformedSignatureError (Wrapf context err) =
     (context = ''error getting signature payload'' \<or>
      context = ''error unmarshaling signature payload'' \<or>
      context = ''error decoding signature payload'' \<or>
      context = ''error unmarshaling signature statement'')"
| "MalformedSignatureError (Errorf msg) =
     (hasPrefix msg ''legacy signature found but with unexpected type: '' \<or>
      hasPrefix msg ''bundled signature found but with unexpected type: '')"
| "MalformedSignatureError _ = False"

section \<open>A concrete registry for examples\<close>

text \<open>
  A small world to run the program in: the world counts the authentication flows that
  have run, and every flow hands out a token that differs from the ones before.
  Image \<open>''a''\<close> carries both signatures, \<open>''b''\<close> only the legacy one, \<open>''c''\<close> none
  and cannot be signed. \<open>''u''\<close> has a legacy signature and \<open>''v''\<close> a bundled one whose
  verification failed; \<open>''m''\<close> has a legacy signature with a foreign type tag and
  \<open>''n''\<close> a bundled one whose envelope holds no base64. Any other image has no
  signature and can be signed.
\<close>

definition example_legacy_sig :: oci_signature where
  "example_legacy_sig = \<lparr>Payload = Inr ''L''\<rparr>"

definition example_foreign_sig :: oci_signature where
  "example_foreign_sig = \<lparr>Payload = Inr ''X''\<rparr>"

definition example_bundled_sig :: oci_signature where
  "example_bundled_sig = \<lparr>Payload = Inr ''E''\<rparr>"

definition example_undecodable_sig :: oci_signature where
  "example_undecodable_sig = \<lparr>Payload = Inr ''Y''\<rparr>"

definition example_env :: "nat collaborators" where
  "example_env =
     \<lparr>ParseReference =
        (\<lambda>name. if name = [] then Inl (External ''could not parse reference'')
                 else Inr (Reference name)),
      TrustedRoot = (\<lambda>w. (Inr (TrustedMaterial ''root''), w)),
      VerifyImageSignatures =
        (\<lambda>ref opts w.
           (if ref = Reference ''a'' \<or> ref = Reference ''b'' \<or> ref = Reference ''v'' \<or>
               ref = Reference ''n''
              then ([example_legacy_sig], True, None)
            else if ref = Reference ''u'' then ([example_legacy_sig], False, None)
            else if ref = Reference ''m'' then ([example_legacy_sig, example_foreign_sig], True, None)
            else ([], False, Some (Wrapf ''no signatures found'' ErrNoSignaturesFound)), w)),
      VerifyImageAttestations =
        (\<lambda>ref opts w.
           (if ref = Reference ''a'' then ([example_bundled_sig], True, None)
            else if ref = Reference ''v'' then ([example_bundled_sig], False, None)
            else if ref = Reference ''n''
              then ([example_bundled_sig, example_undecodable_sig], True, None)
            else ([], False, Some ErrNoMatchingAttestations), w)),
      OIDConnect =
        (\<lambda>issuer clientID secret redirectURL tokenGetter w.
           (Inr \<lparr>RawString = ''token'' @ replicate w (CHR ''+''), Subject = ''user''\<rparr>, Suc w)),
      SignCmd =
        (\<lambda>ro ko so imgs w.
           (if imgs = [''c''] then Some (External ''context deadline exceeded'') else None, w)),
      Unmarshal_SimpleContainerImage =
        (\<lambda>b. if b = ''L'' then Inr \<lparr>Critical = \<lparr>Critical_Type = CosignSignatureType\<rparr>\<rparr>
              else if b = ''X'' then Inr \<lparr>Critical = \<lparr>Critical_Type = ''foreign''\<rparr>\<rparr>
              else Inl (External ''invalid character'')),
      Unmarshal_Envelope =
        (\<lambda>b. if b = ''E''
              then Inr \<lparr>Envelope_PayloadType = ''application/vnd.in-toto+json'',
                        Envelope_Payload = ''Uw==''\<rparr>
              else if b = ''Y''
              then Inr \<lparr>Envelope_PayloadType = ''application/vnd.in-toto+json'',
                        Envelope_Payload = ''!!''\<rparr>
              else Inl (External ''invalid character'')),
      DecodeB64Payload =
        (\<lambda>e. if Envelope_Payload e = ''Uw=='' then Inr ''S''
              else Inl (External ''illegal base64 data'')),
      Unmarshal_Statement =
        (\<lambda>b. if b = ''S'' then Inr \<lparr>PredicateType = CosignSignPredicateType\<rparr>
              else Inl (External ''invalid character'')),
      DefaultOIDCIssuerURL = ''https://oauth2.sigstore.dev/auth'',
      DefaultFulcioURL = ''https://fulcio.sigstore.dev'',
      DefaultRekorURL = ''https://rekor.sigstore.dev'',
      SigstoreOIDCClientID = ''sigstore''\<rparr>"

definition example_opts :: signOptions where
  "example_opts =
     \<lparr>CertificateIdentityRegexp = ''@siderolabs'' @ [CHR 0x5C] @ ''.com$'',
      CertificateOIDCIssuer = ''https://accounts.google.com'',
      OIDCProvider = ''google'',
      opt_Timeout = 300000000000,
      DeviceFlow = False\<rparr>"

definition example_state :: "nat state" where
  "example_state = \<lparr>world = 0, trace = [], onces = []\<rparr>"

section \<open>The credential: one cell per call of getToken\<close>

lemma switch_provider_None:
  "switch_provider provider = None \<longleftrightarrow> provider \<notin> {[], ''google'', ''github'', ''microsoft''}"
  by (simp add: switch_provider_def)

lemma getToken_body_unsupported:
  "switch_provider provider = None \<Longrightarrow>
   getToken_body env provider deviceFlow s = (Inl (Errorf (''unsupported provider: '' @ provider)), s)"
  by (simp add: getToken_body_def)

lemma getToken_body_supported:
  assumes "switch_provider provider = Some g"
  shows "getToken_body env provider deviceFlow s =
     (let tokenGetter = (if deviceFlow then NewDeviceFlowTokenGetterForIssuer (DefaultOIDCIssuerURL env) else g);
          (tk, w) = OIDConnect env (DefaultOIDCIssuerURL env) (SigstoreOIDCClientID env) [] [] tokenGetter (world s)
      in (map_sum id RawString tk,
          s\<lparr>world := w,
            trace := trace s @ [OIDConnectCall (DefaultOIDCIssuerURL env) (SigstoreOIDCClientID env) [] []
                                   tokenGetter tk]\<rparr>))"
  using assms
  by (simp add: getToken_body_def call_OIDConnect_def emit_def Let_def split: prod.splits sum.splits)

lemma getToken_body_onces: "onces (snd (getToken_body env provider deviceFlow s)) = onces s"
  by (simp add: getToken_body_def call_OIDConnect_def emit_def Let_def split: prod.splits sum.splits option.splits)

lemma call_once_filled:
  "h < length (onces s) \<Longrightarrow> once_done (onces s ! h) = Some r \<Longrightarrow> call_once env h s = (r, s)"
  by (simp add: call_once_def)

lemma getToken_body_oncesD:
  "getToken_body env provider deviceFlow s = (r, s') \<Longrightarrow> onces s' = onces s"
  using getToken_body_onces[of env provider deviceFlow s] by simp

lemma call_once_fresh:
  assumes "getToken provider deviceFlow s = (h, s1)"
  shows "call_once env h s1 =
     (let (r, s2) = getToken_body env provider deviceFlow s1
      in (r, s2\<lparr>onces := onces s @ [\<lparr>once_provider = provider, once_deviceFlow = deviceFlow, once_done = Some r\<rparr>]\<rparr>))"
proof -
  from assms have h: "h = length (onces s)"
    and s1: "s1 = s\<lparr>onces := onces s @ [\<lparr>once_provider = provider, once_deviceFlow = deviceFlow, once_done = None\<rparr>]\<rparr>"
    by (auto simp: getToken_def)
  show ?thesis
    unfolding h s1
    by (auto simp: call_once_def Let_def dest!: getToken_body_oncesD split: prod.splits)
qed

text \<open>
  Claim C8. A provider outside the four that the \<^verbatim>\<open>switch\<close> names makes the call of the
  function returned by \<open>getToken\<close> fail with the error \<^verbatim>\<open>unsupported provider\<close>; the
  call reaches no collaborator (trace and world stay as they are, so \<^verbatim>\<open>OIDConnect\<close> is
  not invoked), and calling the same function value again returns the same stored error
  and changes nothing.
\<close>

theorem getToken_unsupported_provider:
  assumes "provider \<notin> {[], ''google'', ''github'', ''microsoft''}"
      and "getToken provider deviceFlow s = (h, s1)"
  shows "\<exists>s2. call_once env h s1 = (Inl (Errorf (''unsupported provider: '' @ provider)), s2)
            \<and> trace s2 = trace s1 \<and> world s2 = world s1
            \<and> call_once env h s2 = (Inl (Errorf (''unsupported provider: '' @ provider)), s2)"
proof -
  from assms(1) have n: "switch_provider provider = None" by (simp add: switch_provider_None)
  let ?r = "Inl (Errorf (''unsupported provider: '' @ provider)) :: error + string"
  let ?s2 = "s1\<lparr>onces := onces s @ [\<lparr>once_provider = provider, once_deviceFlow = deviceFlow, once_done = Some ?r\<rparr>]\<rparr>"
  have first: "call_once env h s1 = (?r, ?s2)"
    by (simp only: call_once_fresh[OF assms(2)] getToken_body_unsupported[OF n] Let_def prod.case)
  from assms(2) have h: "h = length (onces s)" by (auto simp: getToken_def)
  have again: "call_once env h ?s2 = (?r, ?s2)"
    by (rule call_once_filled) (simp_all add: h)
  from first again show ?thesis by (intro exI[of _ ?s2]) simp
qed

theorem getToken_unsupported_provider_witness:
  "''yahoo'' \<notin> {[], ''google'', ''github'', ''microsoft''} \<and>
   getToken ''yahoo'' True example_state = (0, snd (getToken ''yahoo'' True example_state)) \<and>
   (\<exists>s2. call_once example_env 0 (snd (getToken ''yahoo'' True example_state))
            = (Inl (Errorf (''unsupported provider: '' @ ''yahoo'')), s2)
        \<and> trace s2 = trace (snd (getToken ''yahoo'' True example_state))
        \<and> world s2 = world (snd (getToken ''yahoo'' True example_state))
        \<and> call_once example_env 0 s2 = (Inl (Errorf (''unsupported provider: '' @ ''yahoo'')), s2))"
proof -
  have a: "''yahoo'' \<notin> {[], ''google'', ''github'', ''microsoft''}" by simp
  have b: "getToken ''yahoo'' True example_state = (0, snd (getToken ''yahoo'' True example_state))"
    by (simp add: getToken_def example_state_def)
  from a b getToken_unsupported_provider[OF a b, of example_env] show ?thesis by blast
qed


text \<open>
  Claim C7, as stated, fails: with \<open>deviceFlow\<close> set and the provider \<open>''yahoo''\<close> the
  call returns the error of the \<^verbatim>\<open>default\<close> branch, and no token getter is handed to
  \<^verbatim>\<open>OIDConnect\<close>: the trace stays empty.
\<close>

theorem getToken_deviceFlow_counterexample:
  "fst (call_once example_env (fst (getToken ''yahoo'' True example_state))
          (snd (getToken ''yahoo'' True example_state)))
     = Inl (Errorf ''unsupported provider: yahoo'') \<and>
   trace (snd (call_once example_env (fst (getToken ''yahoo'' True example_state))
                 (snd (getToken ''yahoo'' True example_state)))) = []"
  by (simp add: getToken_def call_once_def getToken_body_def switch_provider_def example_state_def)

text \<open>
  Claim C7, amended. With \<open>deviceFlow\<close> set and a provider among the four of the
  \<^verbatim>\<open>switch\<close>, the first call of the function returned by \<open>getToken\<close> makes exactly
  one call of \<^verbatim>\<open>OIDConnect\<close>, and the token getter it hands over is the device flow for
  the default issuer, whichever of the four the provider is; the result is the raw token
  of the answer, or its error.
\<close>

theorem getToken_deviceFlow_supported:
  assumes "provider \<in> {[], ''google'', ''github'', ''microsoft''}"
      and "getToken provider True s = (h, s1)"
  shows "\<exists>tk s2. call_once env h s1 = (map_sum id RawString tk, s2) \<and>
           trace s2 = trace s1 @
             [OIDConnectCall (DefaultOIDCIssuerURL env) (SigstoreOIDCClientID env) [] []
                (NewDeviceFlowTokenGetterForIssuer (DefaultOIDCIssuerURL env)) tk]"
proof -
  from assms(1) obtain g where g: "switch_provider provider = Some g"
    using switch_provider_None[of provider] by (cases "switch_provider provider") auto
  show ?thesis
    by (simp add: call_once_fresh[OF assms(2)] getToken_body_supported[OF g] Let_def
             split: prod.splits)
qed

theorem getToken_deviceFlow_supported_witness:
  "''github'' \<in> {[], ''google'', ''github'', ''microsoft''} \<and>
   (\<exists>tk s2. call_once example_env 0 (snd (getToken ''github'' True example_state))
               = (map_sum id RawString tk, s2) \<and>
      trace s2 = trace (snd (getToken ''github'' True example_state)) @
             [OIDConnectCall (DefaultOIDCIssuerURL example_env) (SigstoreOIDCClientID example_env) [] []
                (NewDeviceFlowTokenGetterForIssuer (DefaultOIDCIssuerURL example_env)) tk])"
proof -
  have a: "''github'' \<in> {[], ''google'', ''github'', ''microsoft''}" by simp
  have b: "getToken ''github'' True example_state = (0, snd (getToken ''github'' True example_state))"
    by (simp add: getToken_def example_state_def)
  from a getToken_deviceFlow_supported[OF a b, of example_env] show ?thesis by blast
qed

subsection \<open>Running the example\<close>

lemmas example_run =
  VerifySignature_def verifyLegacySignature_def verifyBundledSignature_def
  call_TrustedRoot_def call_VerifyImageSignatures_def call_VerifyImageAttestations_def emit_def
  example_env_def example_state_def Printf_def Println_def example_opts_def
  example_legacy_sig_def example_bundled_sig_def example_foreign_sig_def
  example_undecodable_sig_def new_events_def
  SignImage_def getToken_def call_once_def getToken_body_def switch_provider_def
  call_OIDConnect_def call_SignCmd_def keyOptions_def signingOptions_def rootOptions_def Let_def

text \<open>
  Claim C1 does not hold of the code. \<open>getToken\<close> builds a new \<^verbatim>\<open>sync.OnceValues\<close>
  cell at every call, and \<open>SignImage\<close> calls \<open>getToken\<close> anew for every image, so the
  cell of one image is never asked again. In the example the batch \<open>[''d'', ''e'']\<close> of
  two unsigned images, signed with one provider and one flow, succeeds after two
  authentication flows, which hand out two different tokens, held in two cells.
\<close>

theorem signImages_authenticates_per_image:
  "fst (signImages example_env example_opts [''d'', ''e''] example_state) = None \<and>
   filter is_OIDConnectCall
     (trace (snd (signImages example_env example_opts [''d'', ''e''] example_state))) =
     [OIDConnectCall ''https://oauth2.sigstore.dev/auth'' ''sigstore'' [] []
        PublicInstanceGoogleIDTokenGetter (Inr \<lparr>RawString = ''token'', Subject = ''user''\<rparr>),
      OIDConnectCall ''https://oauth2.sigstore.dev/auth'' ''sigstore'' [] []
        PublicInstanceGoogleIDTokenGetter (Inr \<lparr>RawString = ''token+'', Subject = ''user''\<rparr>)] \<and>
   map once_done (onces (snd (signImages example_env example_opts [''d'', ''e''] example_state))) =
     [Some (Inr ''token''), Some (Inr ''token+'')]"
  by (simp add: example_run)


section \<open>Inspection: what is found, what is absent, what is wrong\<close>

lemma new_events_append: "trace s' = trace s @ evs \<Longrightarrow> new_events s s' = evs"
  by (simp add: new_events_def)

lemma call_TrustedRoot_run:
  assumes "call_TrustedRoot env s = (rt, s1)"
  shows "trace s1 = trace s @ [TrustedRootCall rt]" and "onces s1 = onces s"
  using assms by (auto simp: call_TrustedRoot_def emit_def split: prod.splits)

lemma verifyLegacySignature_run:
  assumes "verifyLegacySignature env ref root ids s = (r, s')"
  obtains sigs v verr where
    "trace s' = trace s @
       [VerifyImageSignaturesCall ref
          \<lparr>co_Identities = ids, co_TrustedMaterial = root, co_NewBundleFormat = False\<rparr>
          (sigs, v, verr)]"
    and "onces s' = onces s"
    and "r = (case verr of
                None \<Rightarrow> if \<not> v then Inl (Errorf ''legacy signatures found but verification failed'')
                         else legacy_loop env sigs
              | Some err \<Rightarrow> if validateNoSignatureFound err then Inr False else Inl err)"
  using assms
  by (auto simp: verifyLegacySignature_def call_VerifyImageSignatures_def emit_def
           split: prod.splits option.splits if_splits)

lemma verifyBundledSignature_run:
  assumes "verifyBundledSignature env ref root ids s = (r, s')"
  obtains sigs v verr where
    "trace s' = trace s @
       [VerifyImageAttestationsCall ref
          \<lparr>co_Identities = ids, co_TrustedMaterial = root, co_NewBundleFormat = True\<rparr>
          (sigs, v, verr)]"
    and "onces s' = onces s"
    and "r = (case verr of
                None \<Rightarrow> if \<not> v then Inl (Errorf ''bundled signatures found but verification failed'')
                         else bundled_loop env sigs
              | Some err \<Rightarrow> if validateNoMatchingAttestations err then Inr False else Inl err)"
  using assms
  by (auto simp: verifyBundledSignature_def call_VerifyImageAttestations_def emit_def
           split: prod.splits option.splits if_splits)

lemma VerifySignature_cases [consumes 1, case_names parse root legacy bundled status]:
  assumes "VerifySignature env img ids s = (r, s')"
  obtains
    (parse) err where "ParseReference env img = Inl err"
      and "r = Inl (Wrapf (''error parsing image reference for '' @ img) err)" and "s' = s"
  | (root) ref err where "ParseReference env img = Inr ref"
      and "call_TrustedRoot env s = (Inl err, s')"
      and "r = Inl (Wrapf ''error getting trusted roots'' err)"
  | (legacy) ref root s1 err where "ParseReference env img = Inr ref"
      and "call_TrustedRoot env s = (Inr root, s1)"
      and "verifyLegacySignature env ref root ids s1 = (Inl err, s')"
      and "r = Inl (Wrapf ''error verifying legacy signature'' err)"
  | (bundled) ref root s1 l s2 err where "ParseReference env img = Inr ref"
      and "call_TrustedRoot env s = (Inr root, s1)"
      and "verifyLegacySignature env ref root ids s1 = (Inr l, s2)"
      and "verifyBundledSignature env ref root ids s2 = (Inl err, s')"
      and "r = Inl (Wrapf ''error verifying bundled signature'' err)"
  | (status) ref root s1 l s2 b where "ParseReference env img = Inr ref"
      and "call_TrustedRoot env s = (Inr root, s1)"
      and "verifyLegacySignature env ref root ids s1 = (Inr l, s2)"
      and "verifyBundledSignature env ref root ids s2 = (Inr b, s')"
      and "r = Inr \<lparr>LegacySignature = l, BundleSignature = b\<rparr>"
  using assms unfolding VerifySignature_def Let_def
  by (auto split: sum.splits prod.splits)

lemma VerifySignature_events:
  assumes "VerifySignature env img ids s = (r, s')"
  shows "trace s' = trace s @ new_events s s' \<and> onces s' = onces s \<and>
     (\<forall>e \<in> set (new_events s s'). \<not> is_SignCmdCall e \<and> \<not> is_OIDConnectCall e) \<and>
     (\<forall>ref opts sigs v verr.
        VerifyImageSignaturesCall ref opts (sigs, v, verr) \<in> set (new_events s s') \<longrightarrow>
        (case verr of
           None \<Rightarrow>
             if \<not> v
             then r = Inl (Wrapf ''error verifying legacy signature''
                            (Errorf ''legacy signatures found but verification failed''))
             else (case legacy_loop env sigs of
                     Inl e \<Rightarrow> r = Inl (Wrapf ''error verifying legacy signature'' e)
                   | Inr l \<Rightarrow> (\<exists>e. r = Inl (Wrapf ''error verifying bundled signature'' e)) \<or>
                              (\<exists>b. r = Inr \<lparr>LegacySignature = l, BundleSignature = b\<rparr>))
         | Some err \<Rightarrow>
             if validateNoSignatureFound err
             then (\<exists>e. r = Inl (Wrapf ''error verifying bundled signature'' e)) \<or>
                  (\<exists>b. r = Inr \<lparr>LegacySignature = False, BundleSignature = b\<rparr>)
             else r = Inl (Wrapf ''error verifying legacy signature'' err))) \<and>
     (\<forall>ref opts sigs v verr.
        VerifyImageAttestationsCall ref opts (sigs, v, verr) \<in> set (new_events s s') \<longrightarrow>
        (case verr of
           None \<Rightarrow>
             if \<not> v
             then r = Inl (Wrapf ''error verifying bundled signature''
                            (Errorf ''bundled signatures found but verification failed''))
             else (case bundled_loop env sigs of
                     Inl e \<Rightarrow> r = Inl (Wrapf ''error verifying bundled signature'' e)
                   | Inr b \<Rightarrow> (\<exists>l. r = Inr \<lparr>LegacySignature = l, BundleSignature = b\<rparr>))
         | Some err \<Rightarrow>
             if validateNoMatchingAttestations err
             then (\<exists>l. r = Inr \<lparr>LegacySignature = l, BundleSignature = False\<rparr>)
             else r = Inl (Wrapf ''error verifying bundled signature'' err))) \<and>
     (\<forall>st. r = Inr st \<longrightarrow>
        (\<exists>root ref optsL ansL optsB ansB.
           new_events s s' = [TrustedRootCall (Inr root), VerifyImageSignaturesCall ref optsL ansL,
                  VerifyImageAttestationsCall ref optsB ansB]))"
  using assms
proof (cases rule: VerifySignature_cases)
  case (parse err)
  then show ?thesis by (simp add: new_events_def)
next
  case (root ref err)
  from call_TrustedRoot_run[OF root(2)] root(3) show ?thesis
    by (simp add: new_events_def)
next
  case (legacy ref root s1 err)
  note t = call_TrustedRoot_run[OF legacy(2)]
  from legacy(3) obtain sigs v verr where
    l: "trace s' = trace s1 @ [VerifyImageSignaturesCall ref
          \<lparr>co_Identities = ids, co_TrustedMaterial = root, co_NewBundleFormat = False\<rparr>
          (sigs, v, verr)]" "onces s' = onces s1"
      "Inl err = (case verr of
                None \<Rightarrow> if \<not> v then Inl (Errorf ''legacy signatures found but verification failed'')
                         else legacy_loop env sigs
              | Some err \<Rightarrow> if validateNoSignatureFound err then Inr False else Inl err)"
    by (rule verifyLegacySignature_run)
  have n: "new_events s s' = [TrustedRootCall (Inr root), VerifyImageSignaturesCall ref
          \<lparr>co_Identities = ids, co_TrustedMaterial = root, co_NewBundleFormat = False\<rparr>
          (sigs, v, verr)]"
    using t l(1) by (simp add: new_events_def)
  show ?thesis
    unfolding n using t l legacy(4)
    by (auto split: option.splits if_splits sum.splits)
next
  case (bundled ref root s1 l s2 err)
  note t = call_TrustedRoot_run[OF bundled(2)]
  from bundled(3) obtain sigs v verr where
    l: "trace s2 = trace s1 @ [VerifyImageSignaturesCall ref
          \<lparr>co_Identities = ids, co_TrustedMaterial = root, co_NewBundleFormat = False\<rparr>
          (sigs, v, verr)]" "onces s2 = onces s1"
      "Inr l = (case verr of
                None \<Rightarrow> if \<not> v then Inl (Errorf ''legacy signatures found but verification failed'')
                         else legacy_loop env sigs
              | Some err \<Rightarrow> if validateNoSignatureFound err then Inr False else Inl err)"
    by (rule verifyLegacySignature_run)
  from bundled(4) obtain sigs' v' verr' where
    b: "trace s' = trace s2 @ [VerifyImageAttestationsCall ref
          \<lparr>co_Identities = ids, co_TrustedMaterial = root, co_NewBundleFormat = True\<rparr>
          (sigs', v', verr')]" "onces s' = onces s2"
      "Inl err = (case verr' of
                None \<Rightarrow> if \<not> v' then Inl (Errorf ''bundled signatures found but verification failed'')
                         else bundled_loop env sigs'
              | Some err \<Rightarrow> if validateNoMatchingAttestations err then Inr False else Inl err)"
    by (rule verifyBundledSignature_run)
  have n: "new_events s s' = [TrustedRootCall (Inr root), VerifyImageSignaturesCall ref
          \<lparr>co_Identities = ids, co_TrustedMaterial = root, co_NewBundleFormat = False\<rparr>
          (sigs, v, verr), VerifyImageAttestationsCall ref
          \<lparr>co_Identities = ids, co_TrustedMaterial = root, co_NewBundleFormat = True\<rparr>
          (sigs', v', verr')]"
    using t l(1) b(1) by (simp add: new_events_def)
  show ?thesis
    unfolding n using t l b bundled(5)
    by (auto split: option.splits if_splits sum.splits)
next
  case (status ref root s1 l s2 b)
  note t = call_TrustedRoot_run[OF status(2)]
  from status(3) obtain sigs v verr where
    l: "trace s2 = trace s1 @ [VerifyImageSignaturesCall ref
          \<lparr>co_Identities = ids, co_TrustedMaterial = root, co_NewBundleFormat = False\<rparr>
          (sigs, v, verr)]" "onces s2 = onces s1"
      "Inr l = (case verr of
                None \<Rightarrow> if \<not> v then Inl (Errorf ''legacy signatures found but verification failed'')
                         else legacy_loop env sigs
              | Some err \<Rightarrow> if validateNoSignatureFound err then Inr False else Inl err)"
    by (rule verifyLegacySignature_run)
  from status(4) obtain sigs' v' verr' where
    b: "trace s' = trace s2 @ [VerifyImageAttestationsCall ref
          \<lparr>co_Identities = ids, co_TrustedMaterial = root, co_NewBundleFormat = True\<rparr>
          (sigs', v', verr')]" "onces s' = onces s2"
      "Inr b = (case verr' of
                None \<Rightarrow> if \<not> v' then Inl (Errorf ''bundled signatures found but verification failed'')
                         else bundled_loop env sigs'
              | Some err \<Rightarrow> if validateNoMatchingAttestations err then Inr False else Inl err)"
    by (rule verifyBundledSignature_run)
  have n: "new_events s s' = [TrustedRootCall (Inr root), VerifyImageSignaturesCall ref
          \<lparr>co_Identities = ids, co_TrustedMaterial = root, co_NewBundleFormat = False\<rparr>
          (sigs, v, verr), VerifyImageAttestationsCall ref
          \<lparr>co_Identities = ids, co_TrustedMaterial = root, co_NewBundleFormat = True\<rparr>
          (sigs', v', verr')]"
    using t l(1) b(1) by (simp add: new_events_def)
  show ?thesis
    unfolding n using t l b status(5)
    by (auto split: option.splits if_splits sum.splits)
qed

lemma hasPrefix_append: "hasPrefix (p @ t) p"
  by (simp add: hasPrefix_def)

lemma legacy_loop_Inr: "legacy_loop env sigs = Inr b \<longleftrightarrow> b \<and> (\<forall>sig \<in> set sigs. legacy_wellformed env sig)"
  by (induction sigs) (auto simp: legacy_wellformed_def split: sum.splits)

lemma legacy_loop_Inl: "legacy_loop env sigs = Inl e \<Longrightarrow> MalformedSignatureError e"
proof (induction sigs)
  case Nil
  then show ?case by simp
next
  case (Cons sig sigs)
  have "MalformedSignatureError (Errorf (''legacy signature found but with unexpected type: '' @ t))" for t
    by (simp only: MalformedSignatureError.simps hasPrefix_append simp_thms)
  with Cons show ?case
    by (auto simp del: MalformedSignatureError.simps(2) append.simps split: sum.splits if_splits)
qed

lemma bundled_loop_Inr: "bundled_loop env sigs = Inr b \<longleftrightarrow> b \<and> (\<forall>sig \<in> set sigs. bundled_wellformed env sig)"
  by (induction sigs) (auto simp: bundled_wellformed_def split: sum.splits)

lemma bundled_loop_Inl: "bundled_loop env sigs = Inl e \<Longrightarrow> MalformedSignatureError e"
proof (induction sigs)
  case Nil
  then show ?case by simp
next
  case (Cons sig sigs)
  have "MalformedSignatureError (Errorf (''bundled signature found but with unexpected type: '' @ t))" for t
    by (simp only: MalformedSignatureError.simps hasPrefix_append simp_thms)
  with Cons show ?case
    by (auto simp del: MalformedSignatureError.simps(2) append.simps split: sum.splits if_splits)
qed

lemma VerifySignature_legacy_answer:
  assumes "VerifySignature env img ids s = (r, s')"
      and "VerifyImageSignaturesCall ref opts (sigs, v, verr) \<in> set (new_events s s')"
  shows "(case verr of
           None \<Rightarrow>
             if \<not> v
             then r = Inl (Wrapf ''error verifying legacy signature''
                            (Errorf ''legacy signatures found but verification failed''))
             else (case legacy_loop env sigs of
                     Inl e \<Rightarrow> r = Inl (Wrapf ''error verifying legacy signature'' e)
                   | Inr l \<Rightarrow> (\<exists>e. r = Inl (Wrapf ''error verifying bundled signature'' e)) \<or>
                              (\<exists>b. r = Inr \<lparr>LegacySignature = l, BundleSignature = b\<rparr>))
         | Some err \<Rightarrow>
             if validateNoSignatureFound err
             then (\<exists>e. r = Inl (Wrapf ''error verifying bundled signature'' e)) \<or>
                  (\<exists>b. r = Inr \<lparr>LegacySignature = False, BundleSignature = b\<rparr>)
             else r = Inl (Wrapf ''error verifying legacy signature'' err))"
  using VerifySignature_events[OF assms(1)] assms(2) by blast

lemma VerifySignature_bundled_answer:
  assumes "VerifySignature env img ids s = (r, s')"
      and "VerifyImageAttestationsCall ref opts (sigs, v, verr) \<in> set (new_events s s')"
  shows "(case verr of
           None \<Rightarrow>
             if \<not> v
             then r = Inl (Wrapf ''error verifying bundled signature''
                            (Errorf ''bundled signatures found but verification failed''))
             else (case bundled_loop env sigs of
                     Inl e \<Rightarrow> r = Inl (Wrapf ''error verifying bundled signature'' e)
                   | Inr b \<Rightarrow> (\<exists>l. r = Inr \<lparr>LegacySignature = l, BundleSignature = b\<rparr>))
         | Some err \<Rightarrow>
             if validateNoMatchingAttestations err
             then (\<exists>l. r = Inr \<lparr>LegacySignature = l, BundleSignature = False\<rparr>)
             else r = Inl (Wrapf ''error verifying bundled signature'' err))"
  using VerifySignature_events[OF assms(1)] assms(2) by blast

lemma VerifySignature_status_events:
  assumes "VerifySignature env img ids s = (Inr st, s')"
  shows "\<exists>root ref optsL ansL optsB ansB.
           new_events s s' = [TrustedRootCall (Inr root), VerifyImageSignaturesCall ref optsL ansL,
                  VerifyImageAttestationsCall ref optsB ansB]"
  using VerifySignature_events[OF assms] by blast

lemma VerifySignature_quiet:
  assumes "VerifySignature env img ids s = (r, s')"
  shows "trace s' = trace s @ new_events s s'" and "onces s' = onces s"
    and "filter is_SignCmdCall (new_events s s') = []"
    and "filter is_OIDConnectCall (new_events s s') = []"
  using VerifySignature_events[OF assms] by (simp_all add: filter_empty_conv)

text \<open>
  Claim C2. Whenever a run of \<open>VerifySignature\<close> asked the backend for a format and the
  answer was "no error, but the bundle is not verified", the run returns the error
  \<^verbatim>\<open>... signatures found but verification failed\<close> of that format, wrapped with the
  format's context, and so returns no status at all, in particular none with the flag of
  that format cleared.
\<close>

theorem verification_failed_is_error:
  assumes "VerifySignature env img ids s = (r, s')"
  shows "(VerifyImageSignaturesCall ref opts (sigs, False, None) \<in> set (new_events s s') \<longrightarrow>
            r = Inl (Wrapf ''error verifying legacy signature''
                      (Errorf ''legacy signatures found but verification failed''))) \<and>
         (VerifyImageAttestationsCall ref opts (sigs, False, None) \<in> set (new_events s s') \<longrightarrow>
            r = Inl (Wrapf ''error verifying bundled signature''
                      (Errorf ''bundled signatures found but verification failed'')))"
  using VerifySignature_legacy_answer[OF assms, of ref opts sigs False None]
        VerifySignature_bundled_answer[OF assms, of ref opts sigs False None]
  by simp

text \<open>
  Claim C9. When the legacy query of a run answered with an error in which
  \<^verbatim>\<open>errors.As\<close> finds \<^verbatim>\<open>ErrNoSignaturesFound\<close>, the run carries on with the bundled
  query: it returns a status whose legacy flag is false, unless the bundled stage fails
  with an error of its own. When the bundled query answered with an error in which
  \<^verbatim>\<open>ErrNoMatchingAttestations\<close> is found, the run returns a status whose bundled flag
  is false. In neither case is the absence returned as an error.
\<close>

theorem absent_format_is_not_an_error:
  assumes "VerifySignature env img ids s = (r, s')"
  shows "(VerifyImageSignaturesCall ref opts (sigs, v, Some err) \<in> set (new_events s s') \<longrightarrow>
          validateNoSignatureFound err \<longrightarrow>
            (\<exists>e. r = Inl (Wrapf ''error verifying bundled signature'' e)) \<or>
            (\<exists>b. r = Inr \<lparr>LegacySignature = False, BundleSignature = b\<rparr>)) \<and>
         (VerifyImageAttestationsCall ref opts (sigs, v, Some err) \<in> set (new_events s s') \<longrightarrow>
          validateNoMatchingAttestations err \<longrightarrow>
            (\<exists>l. r = Inr \<lparr>LegacySignature = l, BundleSignature = False\<rparr>))"
  using VerifySignature_legacy_answer[OF assms, of ref opts sigs v "Some err"]
        VerifySignature_bundled_answer[OF assms, of ref opts sigs v "Some err"]
  by simp

text \<open>
  Claim C3. When a query of a run answered with a verified set of signatures and one of
  them is not well-formed for its format (its payload cannot be read, a decoding step fails
  or the type tag is not the expected one), the run returns an error of the family
  \<open>MalformedSignatureError\<close>, wrapped with the format's context. And a status that
  reports a format present comes from an answer of that format's query that was verified
  and all of whose signatures are well-formed.
\<close>

theorem malformed_signature_is_error:
  assumes "VerifySignature env img ids s = (r, s')"
  shows "(VerifyImageSignaturesCall ref opts (sigs, True, None) \<in> set (new_events s s') \<longrightarrow>
          (\<exists>sig \<in> set sigs. \<not> legacy_wellformed env sig) \<longrightarrow>
            (\<exists>e. r = Inl (Wrapf ''error verifying legacy signature'' e) \<and>
                 MalformedSignatureError e)) \<and>
         (VerifyImageAttestationsCall ref opts (sigs, True, None) \<in> set (new_events s s') \<longrightarrow>
          (\<exists>sig \<in> set sigs. \<not> bundled_wellformed env sig) \<longrightarrow>
            (\<exists>e. r = Inl (Wrapf ''error verifying bundled signature'' e) \<and>
                 MalformedSignatureError e)) \<and>
         (\<forall>st. r = Inr st \<longrightarrow> LegacySignature st \<longrightarrow>
            (\<exists>ref opts sigs.
               VerifyImageSignaturesCall ref opts (sigs, True, None) \<in> set (new_events s s') \<and>
               (\<forall>sig \<in> set sigs. legacy_wellformed env sig))) \<and>
         (\<forall>st. r = Inr st \<longrightarrow> BundleSignature st \<longrightarrow>
            (\<exists>ref opts sigs.
               VerifyImageAttestationsCall ref opts (sigs, True, None) \<in> set (new_events s s') \<and>
               (\<forall>sig \<in> set sigs. bundled_wellformed env sig)))"
proof (intro conjI impI allI)
  assume m: "VerifyImageSignaturesCall ref opts (sigs, True, None) \<in> set (new_events s s')"
    and bad: "\<exists>sig \<in> set sigs. \<not> legacy_wellformed env sig"
  from bad obtain e where e: "legacy_loop env sigs = Inl e"
    using legacy_loop_Inr[of env sigs] by (cases "legacy_loop env sigs") auto
  from VerifySignature_legacy_answer[OF assms m] e legacy_loop_Inl[OF e]
  show "\<exists>e. r = Inl (Wrapf ''error verifying legacy signature'' e) \<and> MalformedSignatureError e"
    by simp
next
  assume m: "VerifyImageAttestationsCall ref opts (sigs, True, None) \<in> set (new_events s s')"
    and bad: "\<exists>sig \<in> set sigs. \<not> bundled_wellformed env sig"
  from bad obtain e where e: "bundled_loop env sigs = Inl e"
    using bundled_loop_Inr[of env sigs] by (cases "bundled_loop env sigs") auto
  from VerifySignature_bundled_answer[OF assms m] e bundled_loop_Inl[OF e]
  show "\<exists>e. r = Inl (Wrapf ''error verifying bundled signature'' e) \<and> MalformedSignatureError e"
    by simp
next
  fix st assume r: "r = Inr st" and f: "LegacySignature st"
  from assms r have run: "VerifySignature env img ids s = (Inr st, s')" by simp
  from VerifySignature_status_events[OF run] obtain root ref' optsL sigsL vL errL optsB ansB where
    n: "new_events s s' = [TrustedRootCall (Inr root),
          VerifyImageSignaturesCall ref' optsL (sigsL, vL, errL),
          VerifyImageAttestationsCall ref' optsB ansB]"
    by (metis prod_cases3)
  have m: "VerifyImageSignaturesCall ref' optsL (sigsL, vL, errL) \<in> set (new_events s s')"
    by (simp add: n)
  from VerifySignature_legacy_answer[OF run m] f
  have "vL \<and> errL = None \<and> legacy_loop env sigsL = Inr True"
    by (auto split: option.splits if_splits sum.splits)
  with m legacy_loop_Inr[of env sigsL True]
  show "\<exists>ref opts sigs.
          VerifyImageSignaturesCall ref opts (sigs, True, None) \<in> set (new_events s s') \<and>
          (\<forall>sig \<in> set sigs. legacy_wellformed env sig)"
    by auto
next
  fix st assume r: "r = Inr st" and f: "BundleSignature st"
  from assms r have run: "VerifySignature env img ids s = (Inr st, s')" by simp
  from VerifySignature_status_events[OF run] obtain root ref' optsL ansL optsB sigsB vB errB where
    n: "new_events s s' = [TrustedRootCall (Inr root),
          VerifyImageSignaturesCall ref' optsL ansL,
          VerifyImageAttestationsCall ref' optsB (sigsB, vB, errB)]"
    by (metis prod_cases3)
  have m: "VerifyImageAttestationsCall ref' optsB (sigsB, vB, errB) \<in> set (new_events s s')"
    by (simp add: n)
  from VerifySignature_bundled_answer[OF run m] f
  have "vB \<and> errB = None \<and> bundled_loop env sigsB = Inr True"
    by (auto split: option.splits if_splits sum.splits)
  with m bundled_loop_Inr[of env sigsB True]
  show "\<exists>ref opts sigs.
          VerifyImageAttestationsCall ref opts (sigs, True, None) \<in> set (new_events s s') \<and>
          (\<forall>sig \<in> set sigs. bundled_wellformed env sig)"
    by auto
qed

theorem verification_failed_is_error_witness:
  "VerifyImageSignaturesCall (Reference ''u'')
      \<lparr>co_Identities = [], co_TrustedMaterial = TrustedMaterial ''root'', co_NewBundleFormat = False\<rparr>
      ([example_legacy_sig], False, None)
     \<in> set (new_events example_state (snd (VerifySignature example_env ''u'' [] example_state))) \<and>
   fst (VerifySignature example_env ''u'' [] example_state) =
     Inl (Wrapf ''error verifying legacy signature''
            (Errorf ''legacy signatures found but verification failed'')) \<and>
   VerifyImageAttestationsCall (Reference ''v'')
      \<lparr>co_Identities = [], co_TrustedMaterial = TrustedMaterial ''root'', co_NewBundleFormat = True\<rparr>
      ([example_bundled_sig], False, None)
     \<in> set (new_events example_state (snd (VerifySignature example_env ''v'' [] example_state))) \<and>
   fst (VerifySignature example_env ''v'' [] example_state) =
     Inl (Wrapf ''error verifying bundled signature''
            (Errorf ''bundled signatures found but verification failed''))"
proof -
  have run_u: "VerifySignature example_env ''u'' [] example_state =
      (fst (VerifySignature example_env ''u'' [] example_state),
       snd (VerifySignature example_env ''u'' [] example_state))"
    and run_v: "VerifySignature example_env ''v'' [] example_state =
      (fst (VerifySignature example_env ''v'' [] example_state),
       snd (VerifySignature example_env ''v'' [] example_state))"
    by simp_all
  have m_u: "VerifyImageSignaturesCall (Reference ''u'')
      \<lparr>co_Identities = [], co_TrustedMaterial = TrustedMaterial ''root'', co_NewBundleFormat = False\<rparr>
      ([example_legacy_sig], False, None)
     \<in> set (new_events example_state (snd (VerifySignature example_env ''u'' [] example_state)))"
    by (simp add: example_run)
  have m_v: "VerifyImageAttestationsCall (Reference ''v'')
      \<lparr>co_Identities = [], co_TrustedMaterial = TrustedMaterial ''root'', co_NewBundleFormat = True\<rparr>
      ([example_bundled_sig], False, None)
     \<in> set (new_events example_state (snd (VerifySignature example_env ''v'' [] example_state)))"
    by (simp add: example_run)
  note u = verification_failed_is_error[OF run_u, THEN conjunct1, THEN mp, OF m_u]
  note v = verification_failed_is_error[OF run_v, THEN conjunct2, THEN mp, OF m_v]
  from m_u u m_v v show ?thesis by (intro conjI)
qed

theorem absent_format_is_not_an_error_witness:
  "VerifyImageSignaturesCall (Reference ''d'')
      \<lparr>co_Identities = [], co_TrustedMaterial = TrustedMaterial ''root'', co_NewBundleFormat = False\<rparr>
      ([], False, Some (Wrapf ''no signatures found'' ErrNoSignaturesFound))
     \<in> set (new_events example_state (snd (VerifySignature example_env ''d'' [] example_state))) \<and>
   validateNoSignatureFound (Wrapf ''no signatures found'' ErrNoSignaturesFound) \<and>
   VerifyImageAttestationsCall (Reference ''d'')
      \<lparr>co_Identities = [], co_TrustedMaterial = TrustedMaterial ''root'', co_NewBundleFormat = True\<rparr>
      ([], False, Some ErrNoMatchingAttestations)
     \<in> set (new_events example_state (snd (VerifySignature example_env ''d'' [] example_state))) \<and>
   validateNoMatchingAttestations ErrNoMatchingAttestations \<and>
   (\<exists>l. fst (VerifySignature example_env ''d'' [] example_state) =
           Inr \<lparr>LegacySignature = l, BundleSignature = False\<rparr>) \<and>
   fst (VerifySignature example_env ''d'' [] example_state) =
     Inr \<lparr>LegacySignature = False, BundleSignature = False\<rparr>"
proof -
  have run: "VerifySignature example_env ''d'' [] example_state =
      (fst (VerifySignature example_env ''d'' [] example_state),
       snd (VerifySignature example_env ''d'' [] example_state))"
    by simp
  have m_l: "VerifyImageSignaturesCall (Reference ''d'')
      \<lparr>co_Identities = [], co_TrustedMaterial = TrustedMaterial ''root'', co_NewBundleFormat = False\<rparr>
      ([], False, Some (Wrapf ''no signatures found'' ErrNoSignaturesFound))
     \<in> set (new_events example_state (snd (VerifySignature example_env ''d'' [] example_state)))"
    by (simp add: example_run)
  have m_b: "VerifyImageAttestationsCall (Reference ''d'')
      \<lparr>co_Identities = [], co_TrustedMaterial = TrustedMaterial ''root'', co_NewBundleFormat = True\<rparr>
      ([], False, Some ErrNoMatchingAttestations)
     \<in> set (new_events example_state (snd (VerifySignature example_env ''d'' [] example_state)))"
    by (simp add: example_run)
  have v_l: "validateNoSignatureFound (Wrapf ''no signatures found'' ErrNoSignaturesFound)"
    and v_b: "validateNoMatchingAttestations ErrNoMatchingAttestations"
    by simp_all
  note l = absent_format_is_not_an_error[OF run, THEN conjunct1, THEN mp, OF m_l, THEN mp, OF v_l]
  note b = absent_format_is_not_an_error[OF run, THEN conjunct2, THEN mp, OF m_b, THEN mp, OF v_b]
  from l b have "fst (VerifySignature example_env ''d'' [] example_state) =
     Inr \<lparr>LegacySignature = False, BundleSignature = False\<rparr>"
    by auto
  with m_l m_b v_l v_b b show ?thesis by (intro conjI)
qed

theorem malformed_signature_is_error_witness:
  "VerifyImageSignaturesCall (Reference ''m'')
      \<lparr>co_Identities = [], co_TrustedMaterial = TrustedMaterial ''root'', co_NewBundleFormat = False\<rparr>
      ([example_legacy_sig, example_foreign_sig], True, None)
     \<in> set (new_events example_state (snd (VerifySignature example_env ''m'' [] example_state))) \<and>
   (\<exists>sig \<in> set [example_legacy_sig, example_foreign_sig]. \<not> legacy_wellformed example_env sig) \<and>
   (\<exists>e. fst (VerifySignature example_env ''m'' [] example_state) =
           Inl (Wrapf ''error verifying legacy signature'' e) \<and> MalformedSignatureError e) \<and>
   VerifyImageAttestationsCall (Reference ''n'')
      \<lparr>co_Identities = [], co_TrustedMaterial = TrustedMaterial ''root'', co_NewBundleFormat = True\<rparr>
      ([example_bundled_sig, example_undecodable_sig], True, None)
     \<in> set (new_events example_state (snd (VerifySignature example_env ''n'' [] example_state))) \<and>
   (\<exists>sig \<in> set [example_bundled_sig, example_undecodable_sig]. \<not> bundled_wellformed example_env sig) \<and>
   (\<exists>e. fst (VerifySignature example_env ''n'' [] example_state) =
           Inl (Wrapf ''error verifying bundled signature'' e) \<and> MalformedSignatureError e) \<and>
   fst (VerifySignature example_env ''a'' [] example_state) =
     Inr \<lparr>LegacySignature = True, BundleSignature = True\<rparr> \<and>
   (\<exists>ref opts sigs.
      VerifyImageSignaturesCall ref opts (sigs, True, None)
        \<in> set (new_events example_state (snd (VerifySignature example_env ''a'' [] example_state))) \<and>
      (\<forall>sig \<in> set sigs. legacy_wellformed example_env sig)) \<and>
   (\<exists>ref opts sigs.
      VerifyImageAttestationsCall ref opts (sigs, True, None)
        \<in> set (new_events example_state (snd (VerifySignature example_env ''a'' [] example_state))) \<and>
      (\<forall>sig \<in> set sigs. bundled_wellformed example_env sig))"
proof -
  have run_m: "VerifySignature example_env ''m'' [] example_state =
      (fst (VerifySignature example_env ''m'' [] example_state),
       snd (VerifySignature example_env ''m'' [] example_state))"
    and run_n: "VerifySignature example_env ''n'' [] example_state =
      (fst (VerifySignature example_env ''n'' [] example_state),
       snd (VerifySignature example_env ''n'' [] example_state))"
    and run_a: "VerifySignature example_env ''a'' [] example_state =
      (fst (VerifySignature example_env ''a'' [] example_state),
       snd (VerifySignature example_env ''a'' [] example_state))"
    by simp_all
  have m_m: "VerifyImageSignaturesCall (Reference ''m'')
      \<lparr>co_Identities = [], co_TrustedMaterial = TrustedMaterial ''root'', co_NewBundleFormat = False\<rparr>
      ([example_legacy_sig, example_foreign_sig], True, None)
     \<in> set (new_events example_state (snd (VerifySignature example_env ''m'' [] example_state)))"
    by (simp add: example_run)
  have bad_m: "\<exists>sig \<in> set [example_legacy_sig, example_foreign_sig]. \<not> legacy_wellformed example_env sig"
    by (simp add: legacy_wellformed_def example_env_def example_foreign_sig_def CosignSignatureType_def)
  have m_n: "VerifyImageAttestationsCall (Reference ''n'')
      \<lparr>co_Identities = [], co_TrustedMaterial = TrustedMaterial ''root'', co_NewBundleFormat = True\<rparr>
      ([example_bundled_sig, example_undecodable_sig], True, None)
     \<in> set (new_events example_state (snd (VerifySignature example_env ''n'' [] example_state)))"
    by (simp add: example_run)
  have bad_n: "\<exists>sig \<in> set [example_bundled_sig, example_undecodable_sig]. \<not> bundled_wellformed example_env sig"
    by (simp add: bundled_wellformed_def example_env_def example_undecodable_sig_def)
  have st_a: "fst (VerifySignature example_env ''a'' [] example_state) =
     Inr \<lparr>LegacySignature = True, BundleSignature = True\<rparr>"
    by (simp add: example_run)
  note m = malformed_signature_is_error[OF run_m, THEN conjunct1, THEN mp, OF m_m, THEN mp, OF bad_m]
  note n = malformed_signature_is_error[OF run_n, THEN conjunct2, THEN conjunct1, THEN mp, OF m_n,
             THEN mp, OF bad_n]
  note al = malformed_signature_is_error[OF run_a, THEN conjunct2, THEN conjunct2, THEN conjunct1,
             THEN spec, THEN mp, OF st_a, THEN mp]
  note ab = malformed_signature_is_error[OF run_a, THEN conjunct2, THEN conjunct2, THEN conjunct2,
             THEN spec, THEN mp, OF st_a, THEN mp]
  have al': "\<exists>ref opts sigs.
      VerifyImageSignaturesCall ref opts (sigs, True, None)
        \<in> set (new_events example_state (snd (VerifySignature example_env ''a'' [] example_state))) \<and>
      (\<forall>sig \<in> set sigs. legacy_wellformed example_env sig)"
    by (rule al) simp
  have ab': "\<exists>ref opts sigs.
      VerifyImageAttestationsCall ref opts (sigs, True, None)
        \<in> set (new_events example_state (snd (VerifySignature example_env ''a'' [] example_state))) \<and>
      (\<forall>sig \<in> set sigs. bundled_wellformed example_env sig)"
    by (rule ab) simp
  from m_m bad_m m m_n bad_n n st_a al' ab' show ?thesis by (intro conjI)
qed

section \<open>Signing one image\<close>

lemma call_SignCmd_run:
  assumes "call_SignCmd env ro ko so imgs s = (e, s')"
  shows "trace s' = trace s @ [SignCmdCall ro ko so imgs e]" and "onces s' = onces s"
  using assms by (auto simp: call_SignCmd_def emit_def split: prod.splits)

lemma Printf_run: "trace (Printf text s) = trace s @ [Printed text]" "onces (Printf text s) = onces s"
  by (simp_all add: Printf_def emit_def)

lemma Println_run: "trace (Println text s) = trace s @ [Printed (text @ newline)]"
    "onces (Println text s) = onces s"
  by (simp_all add: Println_def emit_def)

lemma getToken_body_trace:
  assumes "getToken_body env provider deviceFlow s = (r, s')"
  shows "case switch_provider provider of
           None \<Rightarrow> trace s' = trace s \<and> r = Inl (Errorf (''unsupported provider: '' @ provider))
         | Some g \<Rightarrow>
             (\<exists>tk. trace s' = trace s @
                      [OIDConnectCall (DefaultOIDCIssuerURL env) (SigstoreOIDCClientID env) [] []
                         (if deviceFlow
                          then NewDeviceFlowTokenGetterForIssuer (DefaultOIDCIssuerURL env) else g) tk]
                  \<and> r = map_sum id RawString tk)"
proof (cases "switch_provider provider")
  case None
  from assms getToken_body_unsupported[OF None, of env deviceFlow s] show ?thesis
    by (simp add: None)
next
  case (Some g)
  from assms getToken_body_supported[OF Some, of env deviceFlow s] show ?thesis
    by (auto simp: Some Let_def split: prod.splits)
qed

lemma acquire_trace:
  assumes "getToken provider deviceFlow s1 = (h, s2)" and "call_once env h s2 = (r, s3)"
  shows "case switch_provider provider of
           None \<Rightarrow> trace s3 = trace s1 \<and> r = Inl (Errorf (''unsupported provider: '' @ provider))
         | Some g \<Rightarrow>
             (\<exists>tk. trace s3 = trace s1 @
                      [OIDConnectCall (DefaultOIDCIssuerURL env) (SigstoreOIDCClientID env) [] []
                         (if deviceFlow
                          then NewDeviceFlowTokenGetterForIssuer (DefaultOIDCIssuerURL env) else g) tk]
                  \<and> r = map_sum id RawString tk)"
proof -
  obtain r' s2' where b: "getToken_body env provider deviceFlow s2 = (r', s2')"
    by (cases "getToken_body env provider deviceFlow s2")
  from assms(2) call_once_fresh[OF assms(1), of env] b
  have r: "r = r'" and t: "trace s3 = trace s2'" by auto
  from assms(1) have t2: "trace s2 = trace s1" by (auto simp: getToken_def)
  from getToken_body_trace[OF b] show ?thesis
    unfolding r t t2 .
qed

lemma SignImage_cases [consumes 1, case_names root_err token_err legacy_err past_legacy]:
  assumes "SignImage env img legacySigned bundleSigned provider deviceFlow timeout s = (res, s')"
  obtains
    (root_err) err where "call_TrustedRoot env s = (Inl err, s')"
      and "res = Some (Wrapf ''error getting trusted roots'' err)"
  | (token_err) root s1 h s2 err where "call_TrustedRoot env s = (Inr root, s1)"
      and "getToken provider deviceFlow s1 = (h, s2)"
      and "call_once env h s2 = (Inl err, s')"
      and "res = Some (Wrapf ''error getting OIDC token'' err)"
  | (legacy_err) root s1 h s2 token s3 err where "call_TrustedRoot env s = (Inr root, s1)"
      and "getToken provider deviceFlow s1 = (h, s2)"
      and "call_once env h s2 = (Inr token, s3)"
      and "\<not> legacySigned"
      and "call_SignCmd env (rootOptions timeout) (keyOptions env root token) (signingOptions env)
             [img] (Printf (''Signing legacy signature for image: '' @ img @ newline) s3)
           = (Some err, s')"
      and "res = Some (Wrapf (''error signing legacy signature for image '' @ img) err)"
  | (past_legacy) root s1 h s2 token s3 s4 where "call_TrustedRoot env s = (Inr root, s1)"
      and "getToken provider deviceFlow s1 = (h, s2)"
      and "call_once env h s2 = (Inr token, s3)"
      and "if legacySigned then s4 = s3
           else call_SignCmd env (rootOptions timeout) (keyOptions env root token)
                  (signingOptions env) [img]
                  (Printf (''Signing legacy signature for image: '' @ img @ newline) s3)
                = (None, s4)"
      and "if bundleSigned then res = None \<and> s' = s4
           else \<exists>e2. call_SignCmd env (rootOptions timeout)
                        ((keyOptions env root token)\<lparr>ko_NewBundleFormat := True\<rparr>)
                        ((signingOptions env)\<lparr>so_NewBundleFormat := True,
                                                so_UseSigningConfig := True\<rparr>) [img]
                        (Printf (''Signing bundled signature for image: '' @ img @ newline) s4)
                      = (e2, s') \<and>
                    res = map_option
                            (Wrapf (''error signing bundled signature for image '' @ img)) e2"
  using assms unfolding SignImage_def Let_def
  by (auto simp del: append.simps split: sum.splits prod.splits option.splits if_splits)

lemma map_sum_id_Inl:
  "map_sum id f tk = Inl e \<longleftrightarrow> tk = Inl e" "Inl e = map_sum id f tk \<longleftrightarrow> tk = Inl e"
  by (cases tk; auto)+

lemma map_sum_id_Inr:
  "map_sum id f tk = Inr x \<longleftrightarrow> (\<exists>t. tk = Inr t \<and> x = f t)"
  "Inr x = map_sum id f tk \<longleftrightarrow> (\<exists>t. tk = Inr t \<and> x = f t)"
  by (cases tk; auto)+

text \<open>
  Claim C10. Called with both formats already signed, \<open>SignImage\<close> does not refuse: it
  fetches the trusted root and, when that succeeds and the provider is one of the four,
  runs one authentication flow through \<^verbatim>\<open>OIDConnect\<close>. These are all the events of the
  run, so the signing backend is not called. The result is nil when root and token were
  obtained, and otherwise the wrapped error of the root fetch or of the token.
\<close>

theorem SignImage_both_signed:
  assumes "SignImage env img True True provider deviceFlow timeout s = (res, s')"
  shows "\<exists>rt auth. new_events s s' = TrustedRootCall rt # auth \<and>
     (case rt of
        Inl err \<Rightarrow> auth = [] \<and> res = Some (Wrapf ''error getting trusted roots'' err)
      | Inr root \<Rightarrow>
          (case switch_provider provider of
             None \<Rightarrow> auth = [] \<and>
               res = Some (Wrapf ''error getting OIDC token''
                             (Errorf (''unsupported provider: '' @ provider)))
           | Some g \<Rightarrow>
               (\<exists>tk. auth =
                   [OIDConnectCall (DefaultOIDCIssuerURL env) (SigstoreOIDCClientID env) [] []
                      (if deviceFlow
                       then NewDeviceFlowTokenGetterForIssuer (DefaultOIDCIssuerURL env) else g) tk]
                 \<and> res = (case tk of
                            Inl err \<Rightarrow> Some (Wrapf ''error getting OIDC token'' err)
                          | Inr tok \<Rightarrow> None))))"
  using assms
proof (cases rule: SignImage_cases)
  case (root_err err)
  from call_TrustedRoot_run(1)[OF root_err(1)] root_err(2) show ?thesis
    by (simp add: new_events_def)
next
  case (token_err root s1 h s2 err)
  note t = call_TrustedRoot_run(1)[OF token_err(1)]
  from acquire_trace[OF token_err(2,3)] t token_err(4) show ?thesis
    by (cases "switch_provider provider") (auto simp: new_events_def map_sum_id_Inl map_sum_id_Inr)
next
  case (legacy_err root s1 h s2 token s3 err)
  then show ?thesis by simp
next
  case (past_legacy root s1 h s2 token s3 s4)
  note t = call_TrustedRoot_run(1)[OF past_legacy(1)]
  from past_legacy(4,5) have e: "s' = s3" "res = None" by simp_all
  from acquire_trace[OF past_legacy(2,3)] t show ?thesis
    unfolding e
    by (cases "switch_provider provider") (auto simp: new_events_def map_sum_id_Inl map_sum_id_Inr)
qed

lemma acquire_no_sign:
  assumes "getToken provider deviceFlow s1 = (h, s2)" and "call_once env h s2 = (r, s3)"
  shows "\<exists>auth. trace s3 = trace s1 @ auth \<and> filter is_SignCmdCall auth = []"
  using acquire_trace[OF assms] by (cases "switch_provider provider") auto

lemma keyOptions_legacy: "\<not> ko_NewBundleFormat (keyOptions env root token)"
  by (simp add: keyOptions_def)

lemma signingOptions_legacy:
  "\<not> so_NewBundleFormat (signingOptions env)" "\<not> so_UseSigningConfig (signingOptions env)"
  by (simp_all add: signingOptions_def)

text \<open>
  Claim C6. The calls of the signing backend that a run of \<open>SignImage\<close> makes are, in
  order, one legacy call when the legacy signature is missing and one bundled call when
  the bundled signature is missing, each for the one image. The legacy call has the
  new-bundle-format flag off in the key options and in the signing options and the
  signing-config flag off; the bundled call has exactly these three switched on. When the
  run returns nil every call returned nil and none is left out. When it returns an error,
  then either no call was made (the root or the token failed), or the legacy call failed,
  was the only call and its error is returned, or the bundled call failed after the legacy
  call, if one was due, succeeded.
\<close>

theorem SignImage_signs_missing_formats:
  assumes "SignImage env img legacySigned bundleSigned provider deviceFlow timeout s = (res, s')"
  shows "\<exists>root token.
     (let ro = rootOptions timeout; ko = keyOptions env root token; so = signingOptions env;
          legacy = SignCmdCall ro ko so [img];
          bundled = SignCmdCall ro (ko\<lparr>ko_NewBundleFormat := True\<rparr>)
                      (so\<lparr>so_NewBundleFormat := True, so_UseSigningConfig := True\<rparr>) [img];
          calls = filter is_SignCmdCall (new_events s s')
      in \<not> ko_NewBundleFormat ko \<and> \<not> so_NewBundleFormat so \<and> \<not> so_UseSigningConfig so \<and>
         (res = None \<longrightarrow>
            calls = (if legacySigned then [] else [legacy None]) @
                    (if bundleSigned then [] else [bundled None])) \<and>
         (\<forall>e. res = Some e \<longrightarrow>
            (calls = [] \<and> (\<exists>c. e = Wrapf ''error getting trusted roots'' c \<or>
                                e = Wrapf ''error getting OIDC token'' c)) \<or>
            (\<not> legacySigned \<and>
               (\<exists>c. calls = [legacy (Some c)] \<and>
                    e = Wrapf (''error signing legacy signature for image '' @ img) c)) \<or>
            (\<not> bundleSigned \<and>
               (\<exists>c. calls = (if legacySigned then [] else [legacy None]) @ [bundled (Some c)] \<and>
                    e = Wrapf (''error signing bundled signature for image '' @ img) c))))"
  using assms
proof (cases rule: SignImage_cases)
  case (root_err err)
  from call_TrustedRoot_run(1)[OF root_err(1)]
  have "filter is_SignCmdCall (new_events s s') = []" by (simp add: new_events_def)
  with root_err(2) show ?thesis
    by (simp add: Let_def keyOptions_legacy signingOptions_legacy)
next
  case (token_err root s1 h s2 err)
  from acquire_no_sign[OF token_err(2,3)] call_TrustedRoot_run(1)[OF token_err(1)]
  have "filter is_SignCmdCall (new_events s s') = []" by (auto simp: new_events_def)
  with token_err(4) show ?thesis
    by (simp add: Let_def keyOptions_legacy signingOptions_legacy)
next
  case (legacy_err root s1 h s2 token s3 err)
  from acquire_no_sign[OF legacy_err(2,3)] call_TrustedRoot_run(1)[OF legacy_err(1)]
    call_SignCmd_run(1)[OF legacy_err(5)]
  have "filter is_SignCmdCall (new_events s s') =
          [SignCmdCall (rootOptions timeout) (keyOptions env root token) (signingOptions env)
             [img] (Some err)]"
    by (auto simp: new_events_def Printf_run)
  with legacy_err(4,6) show ?thesis
    by (intro exI[of _ root] exI[of _ token])
       (simp add: Let_def keyOptions_legacy signingOptions_legacy del: append.simps)
next
  case (past_legacy root s1 h s2 token s3 s4)
  from acquire_no_sign[OF past_legacy(2,3)] call_TrustedRoot_run(1)[OF past_legacy(1)]
  obtain ev3 where t3: "trace s3 = trace s @ ev3" and pre: "filter is_SignCmdCall ev3 = []"
    by auto
  obtain ev4 where t4: "trace s4 = trace s @ ev4"
    and l: "filter is_SignCmdCall ev4 =
             (if legacySigned then []
              else [SignCmdCall (rootOptions timeout) (keyOptions env root token)
                      (signingOptions env) [img] None])"
  proof (cases legacySigned)
    case True
    with past_legacy(4) t3 pre that[of ev3] show ?thesis by simp
  next
    case False
    with past_legacy(4) have
      "call_SignCmd env (rootOptions timeout) (keyOptions env root token)
                (signingOptions env) [img]
                (Printf (''Signing legacy signature for image: '' @ img @ newline) s3)
              = (None, s4)" by simp
    from call_SignCmd_run(1)[OF this] t3 pre False
      that[of "ev3 @ [Printed (''Signing legacy signature for image: '' @ img @ newline),
                      SignCmdCall (rootOptions timeout) (keyOptions env root token)
                        (signingOptions env) [img] None]"]
    show ?thesis
      by (simp add: Printf_run del: append.simps)
  qed
  show ?thesis
  proof (cases bundleSigned)
    case True
    with past_legacy(5) l t4 show ?thesis
      by (intro exI[of _ root] exI[of _ token])
         (simp add: Let_def keyOptions_legacy signingOptions_legacy new_events_def)
  next
    case False
    with past_legacy(5) obtain e2 where
      c: "call_SignCmd env (rootOptions timeout)
                        ((keyOptions env root token)\<lparr>ko_NewBundleFormat := True\<rparr>)
                        ((signingOptions env)\<lparr>so_NewBundleFormat := True,
                                                so_UseSigningConfig := True\<rparr>) [img]
                        (Printf (''Signing bundled signature for image: '' @ img @ newline) s4)
                      = (e2, s')"
      and r: "res = map_option (Wrapf (''error signing bundled signature for image '' @ img)) e2"
      by auto
    from call_SignCmd_run(1)[OF c] t4 l
    have "filter is_SignCmdCall (new_events s s') =
            (if legacySigned then []
              else [SignCmdCall (rootOptions timeout) (keyOptions env root token)
                      (signingOptions env) [img] None]) @
            [SignCmdCall (rootOptions timeout)
               ((keyOptions env root token)\<lparr>ko_NewBundleFormat := True\<rparr>)
               ((signingOptions env)\<lparr>so_NewBundleFormat := True, so_UseSigningConfig := True\<rparr>)
               [img] e2]"
      by (simp add: new_events_def Printf_run del: append.simps)
    with False r show ?thesis
      by (intro exI[of _ root] exI[of _ token])
         (cases e2; simp add: Let_def keyOptions_legacy signingOptions_legacy del: append.simps)
  qed
qed

theorem SignImage_both_signed_witness:
  "SignImage example_env ''a'' True True ''google'' False 300000000000 example_state =
     (None, snd (SignImage example_env ''a'' True True ''google'' False 300000000000 example_state)) \<and>
   new_events example_state
     (snd (SignImage example_env ''a'' True True ''google'' False 300000000000 example_state)) =
     [TrustedRootCall (Inr (TrustedMaterial ''root'')),
      OIDConnectCall ''https://oauth2.sigstore.dev/auth'' ''sigstore'' [] []
        PublicInstanceGoogleIDTokenGetter (Inr \<lparr>RawString = ''token'', Subject = ''user''\<rparr>)] \<and>
   (\<exists>rt auth.
      new_events example_state
        (snd (SignImage example_env ''a'' True True ''google'' False 300000000000 example_state)) =
        TrustedRootCall rt # auth \<and>
      (case rt of
        Inl err \<Rightarrow> auth = [] \<and> None = Some (Wrapf ''error getting trusted roots'' err)
      | Inr root \<Rightarrow>
          (case switch_provider ''google'' of
             None \<Rightarrow> auth = [] \<and>
               None = Some (Wrapf ''error getting OIDC token''
                             (Errorf (''unsupported provider: '' @ ''google'')))
           | Some g \<Rightarrow>
               (\<exists>tk. auth =
                   [OIDConnectCall (DefaultOIDCIssuerURL example_env) (SigstoreOIDCClientID example_env) [] []
                      (if False
                       then NewDeviceFlowTokenGetterForIssuer (DefaultOIDCIssuerURL example_env) else g) tk]
                 \<and> None = (case tk of
                            Inl err \<Rightarrow> Some (Wrapf ''error getting OIDC token'' err)
                          | Inr tok \<Rightarrow> None)))))"
proof -
  have run: "SignImage example_env ''a'' True True ''google'' False 300000000000 example_state =
     (None, snd (SignImage example_env ''a'' True True ''google'' False 300000000000 example_state))"
    by (simp add: example_run)
  have ev: "new_events example_state
     (snd (SignImage example_env ''a'' True True ''google'' False 300000000000 example_state)) =
     [TrustedRootCall (Inr (TrustedMaterial ''root'')),
      OIDConnectCall ''https://oauth2.sigstore.dev/auth'' ''sigstore'' [] []
        PublicInstanceGoogleIDTokenGetter (Inr \<lparr>RawString = ''token'', Subject = ''user''\<rparr>)]"
    by (simp add: example_run)
  from run ev SignImage_both_signed[OF run] show ?thesis by (intro conjI)
qed

theorem SignImage_signs_missing_formats_witness:
  "SignImage example_env ''d'' False False ''google'' False 300000000000 example_state =
     (None, snd (SignImage example_env ''d'' False False ''google'' False 300000000000 example_state)) \<and>
   (\<exists>root token.
      filter is_SignCmdCall (new_events example_state
        (snd (SignImage example_env ''d'' False False ''google'' False 300000000000 example_state))) =
      [SignCmdCall (rootOptions 300000000000) (keyOptions example_env root token)
         (signingOptions example_env) [''d''] None,
       SignCmdCall (rootOptions 300000000000)
         ((keyOptions example_env root token)\<lparr>ko_NewBundleFormat := True\<rparr>)
         ((signingOptions example_env)\<lparr>so_NewBundleFormat := True, so_UseSigningConfig := True\<rparr>)
         [''d''] None]) \<and>
   SignImage example_env ''c'' False False ''google'' False 300000000000 example_state =
     (Some (Wrapf ''error signing legacy signature for image c''
              (External ''context deadline exceeded'')),
      snd (SignImage example_env ''c'' False False ''google'' False 300000000000 example_state)) \<and>
   (\<exists>root token.
      filter is_SignCmdCall (new_events example_state
        (snd (SignImage example_env ''c'' False False ''google'' False 300000000000 example_state))) =
      [SignCmdCall (rootOptions 300000000000) (keyOptions example_env root token)
         (signingOptions example_env) [''c''] (Some (External ''context deadline exceeded''))])"
proof -
  have run_d: "SignImage example_env ''d'' False False ''google'' False 300000000000 example_state =
     (None, snd (SignImage example_env ''d'' False False ''google'' False 300000000000 example_state))"
    by (simp add: example_run)
  have run_c: "SignImage example_env ''c'' False False ''google'' False 300000000000 example_state =
     (Some (Wrapf ''error signing legacy signature for image c''
              (External ''context deadline exceeded'')),
      snd (SignImage example_env ''c'' False False ''google'' False 300000000000 example_state))"
    by (simp add: example_run)
  from SignImage_signs_missing_formats[OF run_d]
  have d: "\<exists>root token.
      filter is_SignCmdCall (new_events example_state
        (snd (SignImage example_env ''d'' False False ''google'' False 300000000000 example_state))) =
      [SignCmdCall (rootOptions 300000000000) (keyOptions example_env root token)
         (signingOptions example_env) [''d''] None,
       SignCmdCall (rootOptions 300000000000)
         ((keyOptions example_env root token)\<lparr>ko_NewBundleFormat := True\<rparr>)
         ((signingOptions example_env)\<lparr>so_NewBundleFormat := True, so_UseSigningConfig := True\<rparr>)
         [''d''] None]"
    by (auto simp: Let_def)
  from SignImage_signs_missing_formats[OF run_c]
  have c: "\<exists>root token.
      filter is_SignCmdCall (new_events example_state
        (snd (SignImage example_env ''c'' False False ''google'' False 300000000000 example_state))) =
      [SignCmdCall (rootOptions 300000000000) (keyOptions example_env root token)
         (signingOptions example_env) [''c''] (Some (External ''context deadline exceeded''))]"
    by (auto simp: Let_def)
  from run_d d run_c c show ?thesis by (intro conjI)
qed

section \<open>The batch\<close>

lemma signImages_append:
  "signImages env opts (xs @ ys) s =
     (case signImages env opts xs s of
        (None, s1) \<Rightarrow> signImages env opts ys s1
      | (Some e, s1) \<Rightarrow> (Some e, s1))"
proof (induction xs arbitrary: s)
  case Nil
  show ?case by simp
next
  case (Cons x xs)
  show ?case
    by (simp add: Cons.IH Let_def split: prod.splits sum.splits option.splits)
qed

text \<open>
  Claim C4. When the inspection of an image reports both formats present, the iteration
  for that image ends with the skip notice and the batch goes on with the next image:
  between entering the iteration and entering the next one the events are the progress
  line, the root fetch and the two queries of the inspection, and the skip notice. So
  there is no call of the signing backend and no call of \<^verbatim>\<open>OIDConnect\<close>, and no
  \<open>getToken\<close> cell is made.
\<close>

theorem signImages_skips_signed_image:
  assumes "VerifySignature env img
             [\<lparr>Issuer = CertificateOIDCIssuer opts, SubjectRegExp = CertificateIdentityRegexp opts\<rparr>]
             (Printf (''Processing image: '' @ img @ newline) s) = (Inr st, s1)"
      and "LegacySignature st" and "BundleSignature st"
  shows "signImages env opts (img # images) s =
           signImages env opts images
             (Println ''Image is already signed with both legacy and bundled signatures, skipping signing.'' s1) \<and>
         (\<exists>root ref optsL ansL optsB ansB.
            new_events s
              (Println ''Image is already signed with both legacy and bundled signatures, skipping signing.'' s1) =
              [Printed (''Processing image: '' @ img @ newline),
               TrustedRootCall (Inr root),
               VerifyImageSignaturesCall ref optsL ansL,
               VerifyImageAttestationsCall ref optsB ansB,
               Printed (''Image is already signed with both legacy and bundled signatures, skipping signing.'' @ newline)]) \<and>
         filter is_SignCmdCall
           (new_events s
             (Println ''Image is already signed with both legacy and bundled signatures, skipping signing.'' s1)) = [] \<and>
         filter is_OIDConnectCall
           (new_events s
             (Println ''Image is already signed with both legacy and bundled signatures, skipping signing.'' s1)) = [] \<and>
         onces (Println ''Image is already signed with both legacy and bundled signatures, skipping signing.'' s1)
           = onces s"
proof -
  note q = VerifySignature_quiet[OF assms(1)]
  note v = VerifySignature_status_events[OF assms(1)]
  obtain evs where e: "new_events (Printf (''Processing image: '' @ img @ newline) s) s1 = evs"
    by simp
  from q(1) have t: "trace s1 = trace s @ Printed (''Processing image: '' @ img @ newline) # evs"
    unfolding e by (simp add: Printf_run)
  have n: "new_events s
             (Println ''Image is already signed with both legacy and bundled signatures, skipping signing.'' s1)
           = Printed (''Processing image: '' @ img @ newline) # evs @
             [Printed (''Image is already signed with both legacy and bundled signatures, skipping signing.'' @ newline)]"
    unfolding new_events_def Println_run t by simp
  have step: "signImages env opts (img # images) s =
           signImages env opts images
             (Println ''Image is already signed with both legacy and bundled signatures, skipping signing.'' s1)"
    using assms by (simp add: Let_def)
  from q(3,4) have f: "filter is_SignCmdCall evs = []" "filter is_OIDConnectCall evs = []"
    unfolding e by simp_all
  from q(2) have o: "onces (Println ''Image is already signed with both legacy and bundled signatures, skipping signing.'' s1)
           = onces s"
    by (simp add: Println_run Printf_run)
  from v have x: "\<exists>root ref optsL ansL optsB ansB.
      evs = [TrustedRootCall (Inr root), VerifyImageSignaturesCall ref optsL ansL,
             VerifyImageAttestationsCall ref optsB ansB]"
    unfolding e .
  show ?thesis
    unfolding n using step f o x by auto
qed

text \<open>
  Claim C5. The batch runs in input order and stops at the first error. If the images
  before \<open>img\<close> all went through and \<open>img\<close> fails with \<open>e\<close>, the whole batch returns
  \<open>e\<close> in the very state \<open>img\<close> left: whatever follows \<open>img\<close> changes neither world,
  trace nor cells. If the batch returns nil, every image of it returned nil in its turn.
  And one image returns the error of its inspection, or nil after the skip notice, or the
  wrapped error of its signing, or nil after the success notice.
\<close>

theorem signImages_fail_fast:
  "(signImages env opts pre s = (None, s1) \<longrightarrow> signImages env opts [img] s1 = (Some e, s2) \<longrightarrow>
      signImages env opts (pre @ img # post) s = (Some e, s2)) \<and>
   (signImages env opts (pre @ img # post) s = (None, s') \<longrightarrow>
      (\<exists>s1 s2. signImages env opts pre s = (None, s1) \<and>
               signImages env opts [img] s1 = (None, s2) \<and>
               signImages env opts post s2 = (None, s'))) \<and>
   signImages env opts [img] s1 =
      (let (r, sv) = VerifySignature env img
                       [\<lparr>Issuer = CertificateOIDCIssuer opts,
                         SubjectRegExp = CertificateIdentityRegexp opts\<rparr>]
                       (Printf (''Processing image: '' @ img @ newline) s1)
       in case r of
            Inl err \<Rightarrow> (Some err, sv)
          | Inr st \<Rightarrow>
              if LegacySignature st \<and> BundleSignature st
              then (None,
                    Println ''Image is already signed with both legacy and bundled signatures, skipping signing.'' sv)
              else (let (e, ss) = SignImage env img (LegacySignature st) (BundleSignature st)
                                    (OIDCProvider opts) (DeviceFlow opts) (opt_Timeout opts) sv
                    in case e of
                         Some err \<Rightarrow> (Some (Wrapf (''failed to sign image '' @ img) err), ss)
                       | None \<Rightarrow> (None, Printf (''Successfully signed image: '' @ img @ newline) ss)))"
proof (intro conjI impI)
  assume "signImages env opts pre s = (None, s1)" and "signImages env opts [img] s1 = (Some e, s2)"
  then show "signImages env opts (pre @ img # post) s = (Some e, s2)"
    using signImages_append[of env opts pre "img # post" s]
          signImages_append[of env opts "[img]" post s1]
    by simp
next
  assume a: "signImages env opts (pre @ img # post) s = (None, s')"
  obtain r1 s1 where p: "signImages env opts pre s = (r1, s1)"
    by (cases "signImages env opts pre s")
  obtain r2 s2 where i: "signImages env opts [img] s1 = (r2, s2)"
    by (cases "signImages env opts [img] s1")
  from a p signImages_append[of env opts pre "img # post" s]
  have r1: "r1 = None" and b: "signImages env opts (img # post) s1 = (None, s')"
    by (cases r1; simp)+
  from b i signImages_append[of env opts "[img]" post s1]
  have r2: "r2 = None" and c: "signImages env opts post s2 = (None, s')"
    by (cases r2; simp)+
  from p i c r1 r2
  show "\<exists>s1 s2. signImages env opts pre s = (None, s1) \<and>
               signImages env opts [img] s1 = (None, s2) \<and>
               signImages env opts post s2 = (None, s')"
    by blast
next
  show "signImages env opts [img] s1 =
      (let (r, sv) = VerifySignature env img
                       [\<lparr>Issuer = CertificateOIDCIssuer opts,
                         SubjectRegExp = CertificateIdentityRegexp opts\<rparr>]
                       (Printf (''Processing image: '' @ img @ newline) s1)
       in case r of
            Inl err \<Rightarrow> (Some err, sv)
          | Inr st \<Rightarrow>
              if LegacySignature st \<and> BundleSignature st
              then (None,
                    Println ''Image is already signed with both legacy and bundled signatures, skipping signing.'' sv)
              else (let (e, ss) = SignImage env img (LegacySignature st) (BundleSignature st)
                                    (OIDCProvider opts) (DeviceFlow opts) (opt_Timeout opts) sv
                    in case e of
                         Some err \<Rightarrow> (Some (Wrapf (''failed to sign image '' @ img) err), ss)
                       | None \<Rightarrow> (None, Printf (''Successfully signed image: '' @ img @ newline) ss)))"
    by (simp add: Let_def split: prod.splits sum.splits option.splits)
qed

theorem signImages_skips_signed_image_witness:
  "VerifySignature example_env ''a''
     [\<lparr>Issuer = CertificateOIDCIssuer example_opts,
       SubjectRegExp = CertificateIdentityRegexp example_opts\<rparr>]
     (Printf (''Processing image: '' @ ''a'' @ newline) example_state) =
     (Inr \<lparr>LegacySignature = True, BundleSignature = True\<rparr>,
      snd (VerifySignature example_env ''a''
             [\<lparr>Issuer = CertificateOIDCIssuer example_opts,
               SubjectRegExp = CertificateIdentityRegexp example_opts\<rparr>]
             (Printf (''Processing image: '' @ ''a'' @ newline) example_state))) \<and>
   signImages example_env example_opts (''a'' # [''b'']) example_state =
     signImages example_env example_opts [''b'']
       (Println ''Image is already signed with both legacy and bundled signatures, skipping signing.''
          (snd (VerifySignature example_env ''a''
             [\<lparr>Issuer = CertificateOIDCIssuer example_opts,
               SubjectRegExp = CertificateIdentityRegexp example_opts\<rparr>]
             (Printf (''Processing image: '' @ ''a'' @ newline) example_state)))) \<and>
   (\<exists>root ref optsL ansL optsB ansB.
      new_events example_state
       (Println ''Image is already signed with both legacy and bundled signatures, skipping signing.''
          (snd (VerifySignature example_env ''a''
             [\<lparr>Issuer = CertificateOIDCIssuer example_opts,
               SubjectRegExp = CertificateIdentityRegexp example_opts\<rparr>]
             (Printf (''Processing image: '' @ ''a'' @ newline) example_state)))) =
       [Printed (''Processing image: '' @ ''a'' @ newline),
        TrustedRootCall (Inr root),
        VerifyImageSignaturesCall ref optsL ansL,
        VerifyImageAttestationsCall ref optsB ansB,
        Printed (''Image is already signed with both legacy and bundled signatures, skipping signing.'' @ newline)]) \<and>
   filter is_SignCmdCall
     (new_events example_state
       (Println ''Image is already signed with both legacy and bundled signatures, skipping signing.''
          (snd (VerifySignature example_env ''a''
             [\<lparr>Issuer = CertificateOIDCIssuer example_opts,
               SubjectRegExp = CertificateIdentityRegexp example_opts\<rparr>]
             (Printf (''Processing image: '' @ ''a'' @ newline) example_state))))) = [] \<and>
   filter is_OIDConnectCall
     (new_events example_state
       (Println ''Image is already signed with both legacy and bundled signatures, skipping signing.''
          (snd (VerifySignature example_env ''a''
             [\<lparr>Issuer = CertificateOIDCIssuer example_opts,
               SubjectRegExp = CertificateIdentityRegexp example_opts\<rparr>]
             (Printf (''Processing image: '' @ ''a'' @ newline) example_state))))) = [] \<and>
   onces (Println ''Image is already signed with both legacy and bundled signatures, skipping signing.''
          (snd (VerifySignature example_env ''a''
             [\<lparr>Issuer = CertificateOIDCIssuer example_opts,
               SubjectRegExp = CertificateIdentityRegexp example_opts\<rparr>]
             (Printf (''Processing image: '' @ ''a'' @ newline) example_state)))) = onces example_state"
proof -
  have run: "VerifySignature example_env ''a''
     [\<lparr>Issuer = CertificateOIDCIssuer example_opts,
       SubjectRegExp = CertificateIdentityRegexp example_opts\<rparr>]
     (Printf (''Processing image: '' @ ''a'' @ newline) example_state) =
     (Inr \<lparr>LegacySignature = True, BundleSignature = True\<rparr>,
      snd (VerifySignature example_env ''a''
             [\<lparr>Issuer = CertificateOIDCIssuer example_opts,
               SubjectRegExp = CertificateIdentityRegexp example_opts\<rparr>]
             (Printf (''Processing image: '' @ ''a'' @ newline) example_state)))"
    by (simp add: example_run)
  have l: "LegacySignature \<lparr>LegacySignature = True, BundleSignature = True\<rparr>"
    and b: "BundleSignature \<lparr>LegacySignature = True, BundleSignature = True\<rparr>"
    by simp_all
  from run signImages_skips_signed_image[OF run l b, of "[''b'']"] show ?thesis
    by (intro conjI) (elim conjE, assumption)+
qed

theorem signImages_fail_fast_witness:
  "signImages example_env example_opts [''a'', ''b''] example_state =
     (None, snd (signImages example_env example_opts [''a'', ''b''] example_state)) \<and>
   signImages example_env example_opts [''c'']
       (snd (signImages example_env example_opts [''a'', ''b''] example_state)) =
     (Some (Wrapf ''failed to sign image c''
              (Wrapf ''error signing legacy signature for image c''
                 (External ''context deadline exceeded''))),
      snd (signImages example_env example_opts [''c'']
             (snd (signImages example_env example_opts [''a'', ''b''] example_state)))) \<and>
   signImages example_env example_opts ([''a'', ''b''] @ ''c'' # [''d'']) example_state =
     (Some (Wrapf ''failed to sign image c''
              (Wrapf ''error signing legacy signature for image c''
                 (External ''context deadline exceeded''))),
      snd (signImages example_env example_opts [''c'']
             (snd (signImages example_env example_opts [''a'', ''b''] example_state)))) \<and>
   signImages example_env example_opts ([''a''] @ ''b'' # [''d'']) example_state =
     (None, snd (signImages example_env example_opts ([''a''] @ ''b'' # [''d'']) example_state)) \<and>
   (\<exists>s1 s2. signImages example_env example_opts [''a''] example_state = (None, s1) \<and>
            signImages example_env example_opts [''b''] s1 = (None, s2) \<and>
            signImages example_env example_opts [''d''] s2 =
              (None, snd (signImages example_env example_opts ([''a''] @ ''b'' # [''d''])
                            example_state)))"
proof -
  have ab: "signImages example_env example_opts [''a'', ''b''] example_state =
     (None, snd (signImages example_env example_opts [''a'', ''b''] example_state))"
    by (simp add: example_run)
  have c: "signImages example_env example_opts [''c'']
       (snd (signImages example_env example_opts [''a'', ''b''] example_state)) =
     (Some (Wrapf ''failed to sign image c''
              (Wrapf ''error signing legacy signature for image c''
                 (External ''context deadline exceeded''))),
      snd (signImages example_env example_opts [''c'']
             (snd (signImages example_env example_opts [''a'', ''b''] example_state))))"
    by (simp add: example_run)
  have abd: "signImages example_env example_opts ([''a''] @ ''b'' # [''d'']) example_state =
     (None, snd (signImages example_env example_opts ([''a''] @ ''b'' # [''d'']) example_state))"
    by (simp add: example_run)
  note first = signImages_fail_fast[THEN conjunct1, THEN mp, OF ab, THEN mp, OF c, of "[''d'']"]
  note all = signImages_fail_fast[THEN conjunct2, THEN conjunct1, THEN mp, OF abd]
  from ab c first abd all show ?thesis by (intro conjI)
qed

end
